theory Spec2Isabelle
  imports Main
begin

section \<open>Strings\<close>

text \<open>
  Go strings are byte sequences; they are modelled as \<open>string\<close> (a list of bytes).
  \<open>strings.ToLower\<close> first looks whether every byte of its argument is below
  \<open>0x80\<close>. If so, it maps the bytes \<open>A\<close> .. \<open>Z\<close> to \<open>a\<close> .. \<open>z\<close> and leaves every
  other byte alone. If not, it decodes the argument as UTF-8 and lowers every rune by
  the case tables of the \<open>unicode\<close> package (\<open>strings.Map(unicode.ToLower, s)\<close>). The
  tables belong to the standard library; that second path is the parameter
  \<open>unicodeLower\<close> of the model.
\<close>

definition asciiUpper :: string where
  "asciiUpper = ''ABCDEFGHIJKLMNOPQRSTUVWXYZ''"

definition asciiLower :: string where
  "asciiLower = ''abcdefghijklmnopqrstuvwxyz''"

definition toLowerByte :: "char \<Rightarrow> char" where
  "toLowerByte c = (case map_of (zip asciiUpper asciiLower) c of Some l \<Rightarrow> l | None \<Rightarrow> c)"

definition isASCII :: "string \<Rightarrow> bool" where
  "isASCII s = list_all (\<lambda>c. \<not> digit7 c) s"

definition ToLower :: "(string \<Rightarrow> string) \<Rightarrow> string \<Rightarrow> string" where
  "ToLower unicodeLower s = (if isASCII s then map toLowerByte s else unicodeLower s)"

text \<open>
  One instance of the parameter, for evaluating the functions on concrete inputs: it
  lowers the rune \<open>U+0130\<close> (the bytes \<open>0xC4 0xB0\<close>) to \<open>i\<close>, as the case tables do,
  and the ASCII letters.
\<close>

fun sampleUnicodeLower :: "string \<Rightarrow> string" where
  "sampleUnicodeLower (a # b # rest) =
     (if a = CHR 0xC4 \<and> b = CHR 0xB0 then CHR ''i'' # sampleUnicodeLower rest
      else toLowerByte a # sampleUnicodeLower (b # rest))"
| "sampleUnicodeLower [a] = [toLowerByte a]"
| "sampleUnicodeLower [] = []"

section \<open>Enumerated constants of the live outputs client\<close>

text \<open>
  \<open>AsyncOperationStatus\<close> and \<open>LiveOutputResourceState\<close> are string types with three
  named constants each. The parsers return a pointer and an error; the pair is modelled
  as an optional value and an optional error. They take the parameter of
  \<open>strings.ToLower\<close> as their first argument.
\<close>

type_synonym AsyncOperationStatus = string
type_synonym LiveOutputResourceState = string

text \<open>
  The errors of the helpers: a run-time panic (a failed type assertion, an index out of
  range), the error of an IPv6 primary IP configuration, the two errors of a data disk
  whose IOPS or MBps need an ultra SSD, and the error of a JSON helper.
\<close>

datatype error =
    Panic
  | IPv6PrimaryUnsupported
  | IopsNeedsUltraSSD
  | MbpsNeedsUltraSSD
  | JsonError

definition AsyncOperationStatusFailed :: AsyncOperationStatus where
  "AsyncOperationStatusFailed = ''Failed''"

definition AsyncOperationStatusInProgress :: AsyncOperationStatus where
  "AsyncOperationStatusInProgress = ''InProgress''"

definition AsyncOperationStatusSucceeded :: AsyncOperationStatus where
  "AsyncOperationStatusSucceeded = ''Succeeded''"

definition PossibleValuesForAsyncOperationStatus :: "string list" where
  "PossibleValuesForAsyncOperationStatus =
     [AsyncOperationStatusFailed, AsyncOperationStatusInProgress, AsyncOperationStatusSucceeded]"

definition parseAsyncOperationStatus ::
    "(string \<Rightarrow> string) \<Rightarrow> string \<Rightarrow> AsyncOperationStatus option \<times> error option" where
  "parseAsyncOperationStatus unicodeLower input =
     (let vals = [''failed'' \<mapsto> AsyncOperationStatusFailed,
                  ''inprogress'' \<mapsto> AsyncOperationStatusInProgress,
                  ''succeeded'' \<mapsto> AsyncOperationStatusSucceeded]
      in case vals (ToLower unicodeLower input) of
           Some v \<Rightarrow> (Some v, None)
         | None \<Rightarrow> (Some input, None))"

definition LiveOutputResourceStateCreating :: LiveOutputResourceState where
  "LiveOutputResourceStateCreating = ''Creating''"

definition LiveOutputResourceStateDeleting :: LiveOutputResourceState where
  "LiveOutputResourceStateDeleting = ''Deleting''"

definition LiveOutputResourceStateRunning :: LiveOutputResourceState where
  "LiveOutputResourceStateRunning = ''Running''"

definition PossibleValuesForLiveOutputResourceState :: "string list" where
  "PossibleValuesForLiveOutputResourceState =
     [LiveOutputResourceStateCreating, LiveOutputResourceStateDeleting, LiveOutputResourceStateRunning]"

definition parseLiveOutputResourceState ::
    "(string \<Rightarrow> string) \<Rightarrow> string \<Rightarrow> LiveOutputResourceState option \<times> error option" where
  "parseLiveOutputResourceState unicodeLower input =
     (let vals = [''creating'' \<mapsto> LiveOutputResourceStateCreating,
                  ''deleting'' \<mapsto> LiveOutputResourceStateDeleting,
                  ''running'' \<mapsto> LiveOutputResourceStateRunning]
      in case vals (ToLower unicodeLower input) of
           Some v \<Rightarrow> (Some v, None)
         | None \<Rightarrow> (Some input, None))"

section \<open>Configuration values\<close>

text \<open>
  The expand and flatten helpers of the virtual machine scale set work on values of
  Go's \<open>interface{}\<close>: booleans, integers, strings, lists, sets and maps from field
  names to values. A map index \<open>m[k]\<close> on a missing key yields the nil interface, and
  a type assertion \<open>v.(T)\<close> on a value of another dynamic type panics. A panic is the
  error \<open>Panic\<close>. Go's \<open>int\<close> and \<open>int64\<close> are both 64 bits wide on the supported
  platforms and the helpers only convert between them, so both are carried as \<open>int\<close>.
  A nil slice and an empty slice are both the empty list.
\<close>

datatype val =
    VNil
  | VBool bool
  | VInt int
  | VInt64 int
  | VStr string
  | VList "val list"
  | VSet "val list"
  | VMap "string \<Rightarrow> val option"

type_synonym cfgmap = "string \<Rightarrow> val option"

definition bindE :: "error + 'a \<Rightarrow> ('a \<Rightarrow> error + 'b) \<Rightarrow> error + 'b" where
  "bindE m f = (case m of Inl e \<Rightarrow> Inl e | Inr x \<Rightarrow> f x)"

definition index :: "cfgmap \<Rightarrow> string \<Rightarrow> val" where
  "index m k = (case m k of None \<Rightarrow> VNil | Some v \<Rightarrow> v)"

fun isNil :: "val \<Rightarrow> bool" where
  "isNil VNil = True"
| "isNil _ = False"

fun asBool :: "val \<Rightarrow> error + bool" where
  "asBool (VBool b) = Inr b"
| "asBool _ = Inl Panic"

fun asInt :: "val \<Rightarrow> error + int" where
  "asInt (VInt i) = Inr i"
| "asInt _ = Inl Panic"

fun asString :: "val \<Rightarrow> error + string" where
  "asString (VStr s) = Inr s"
| "asString _ = Inl Panic"

fun asList :: "val \<Rightarrow> error + val list" where
  "asList (VList xs) = Inr xs"
| "asList _ = Inl Panic"

fun asSetList :: "val \<Rightarrow> error + val list" where
  "asSetList (VSet xs) = Inr xs"
| "asSetList _ = Inl Panic"

fun asMap :: "val \<Rightarrow> error + cfgmap" where
  "asMap (VMap m) = Inr m"
| "asMap _ = Inl Panic"

definition first :: "val list \<Rightarrow> error + val" where
  "first xs = (case xs of [] \<Rightarrow> Inl Panic | x # _ \<Rightarrow> Inr x)"

section \<open>Additional capabilities, scale-in policy, spot restore policy\<close>

text \<open>
  The API models are structs whose optional fields are pointers; a pointer is an
  \<open>option\<close>. Only the fields the helpers read or write are carried. The constant
  \<open>VirtualMachineScaleSetScaleInRulesDefault\<close> of the API client is the string
  \<open>Default\<close>.
\<close>

record AdditionalCapabilities =
  UltraSSDEnabled :: "bool option"

record ScaleInPolicy =
  Rules :: "string list option"
  ForceDeletion :: "bool option"

record SpotRestorePolicy =
  Enabled :: "bool option"
  RestoreTimeout :: "string option"

definition VirtualMachineScaleSetScaleInRulesDefault :: string where
  "VirtualMachineScaleSetScaleInRulesDefault = ''Default''"

definition ExpandVirtualMachineScaleSetAdditionalCapabilities ::
    "val list \<Rightarrow> error + AdditionalCapabilities option" where
  "ExpandVirtualMachineScaleSetAdditionalCapabilities input =
     (if length input > 0 then
        bindE (first input) (\<lambda>v. bindE (asMap v) (\<lambda>raw.
        bindE (asBool (index raw ''ultra_ssd_enabled'')) (\<lambda>b.
        Inr (Some \<lparr>UltraSSDEnabled = Some b\<rparr>))))
      else Inr (Some \<lparr>UltraSSDEnabled = None\<rparr>))"

definition FlattenVirtualMachineScaleSetAdditionalCapabilities ::
    "AdditionalCapabilities option \<Rightarrow> val list" where
  "FlattenVirtualMachineScaleSetAdditionalCapabilities input =
     (case input of
        None \<Rightarrow> []
      | Some c \<Rightarrow>
          (let ultraSsdEnabled = (case UltraSSDEnabled c of None \<Rightarrow> False | Some b \<Rightarrow> b)
           in [VMap [''ultra_ssd_enabled'' \<mapsto> VBool ultraSsdEnabled]]))"

definition ExpandVirtualMachineScaleSetScaleInPolicy ::
    "val list \<Rightarrow> error + ScaleInPolicy option" where
  "ExpandVirtualMachineScaleSetScaleInPolicy input =
     (if length input = 0 then Inr None
      else
        bindE (first input) (\<lambda>v. bindE (asMap v) (\<lambda>raw.
        bindE (asString (index raw ''rule'')) (\<lambda>rule.
        bindE (asBool (index raw ''force_deletion_enabled'')) (\<lambda>forceDeletion.
        Inr (Some \<lparr>Rules = Some [rule], ForceDeletion = Some forceDeletion\<rparr>))))))"

definition FlattenVirtualMachineScaleSetScaleInPolicy ::
    "ScaleInPolicy option \<Rightarrow> val list" where
  "FlattenVirtualMachineScaleSetScaleInPolicy input =
     (case input of
        None \<Rightarrow> []
      | Some p \<Rightarrow>
          (let rule = (case Rules p of
                         Some (r # _) \<Rightarrow> r
                       | _ \<Rightarrow> VirtualMachineScaleSetScaleInRulesDefault);
               forceDeletion = (case ForceDeletion p of None \<Rightarrow> False | Some b \<Rightarrow> b)
           in [VMap [''rule'' \<mapsto> VStr rule,
                     ''force_deletion_enabled'' \<mapsto> VBool forceDeletion]]))"

definition ExpandVirtualMachineScaleSetSpotRestorePolicy ::
    "val list \<Rightarrow> error + SpotRestorePolicy option" where
  "ExpandVirtualMachineScaleSetSpotRestorePolicy input =
     (if length input = 0 then Inr None
      else
        bindE (first input) (\<lambda>v. bindE (asMap v) (\<lambda>raw.
        bindE (asBool (index raw ''enabled'')) (\<lambda>enabled.
        bindE (asString (index raw ''timeout'')) (\<lambda>timeout.
        Inr (Some \<lparr>Enabled = Some enabled, RestoreTimeout = Some timeout\<rparr>))))))"

definition FlattenVirtualMachineScaleSetSpotRestorePolicy ::
    "SpotRestorePolicy option \<Rightarrow> val list" where
  "FlattenVirtualMachineScaleSetSpotRestorePolicy input =
     (case input of
        None \<Rightarrow> []
      | Some p \<Rightarrow>
          (let enabled = (case Enabled p of None \<Rightarrow> False | Some b \<Rightarrow> b);
               restore = (case RestoreTimeout p of None \<Rightarrow> [] | Some t \<Rightarrow> t)
           in [VMap [''enabled'' \<mapsto> VBool enabled, ''timeout'' \<mapsto> VStr restore]]))"

section \<open>API models of the network interface and the disks\<close>

text \<open>
  Each struct of the API client is a record. A field \<open>F\<close> of a struct is named
  \<open>t_F\<close>, with a short tag \<open>t\<close> for the struct, since several structs share field
  names. \<open>pointer.From\<close> on a string pointer returns the empty string for nil.
\<close>

record SubResource =
  sr_Id :: "string option"

record ApiEntityReference =
  aer_Id :: "string option"

record VirtualMachineScaleSetIPTag =
  tag_Tag :: "string option"
  tag_IPTagType :: "string option"

record VirtualMachineScaleSetPublicIPAddressConfigurationDnsSettings =
  pdns_DomainNameLabel :: string

record VirtualMachineScaleSetPublicIPAddressConfigurationProperties =
  pipp_IPTags :: "VirtualMachineScaleSetIPTag list option"
  pipp_PublicIPAddressVersion :: "string option"
  pipp_DnsSettings :: "VirtualMachineScaleSetPublicIPAddressConfigurationDnsSettings option"
  pipp_IdleTimeoutInMinutes :: "int option"
  pipp_PublicIPPrefix :: "SubResource option"

record VirtualMachineScaleSetPublicIPAddressConfiguration =
  pip_Name :: string
  pip_Properties :: "VirtualMachineScaleSetPublicIPAddressConfigurationProperties option"

record VirtualMachineScaleSetIPConfigurationProperties =
  ipp_Primary :: "bool option"
  ipp_PrivateIPAddressVersion :: "string option"
  ipp_ApplicationGatewayBackendAddressPools :: "SubResource list option"
  ipp_ApplicationSecurityGroups :: "SubResource list option"
  ipp_LoadBalancerBackendAddressPools :: "SubResource list option"
  ipp_LoadBalancerInboundNatPools :: "SubResource list option"
  ipp_Subnet :: "ApiEntityReference option"
  ipp_PublicIPAddressConfiguration :: "VirtualMachineScaleSetPublicIPAddressConfiguration option"

record VirtualMachineScaleSetIPConfiguration =
  ipc_Name :: string
  ipc_Properties :: "VirtualMachineScaleSetIPConfigurationProperties option"

record VirtualMachineScaleSetNetworkConfigurationDnsSettings =
  dns_DnsServers :: "string list option"

record VirtualMachineScaleSetNetworkConfigurationProperties =
  ncp_DnsSettings :: "VirtualMachineScaleSetNetworkConfigurationDnsSettings option"
  ncp_EnableAcceleratedNetworking :: "bool option"
  ncp_EnableIPForwarding :: "bool option"
  ncp_IPConfigurations :: "VirtualMachineScaleSetIPConfiguration list"
  ncp_Primary :: "bool option"
  ncp_NetworkSecurityGroup :: "SubResource option"

record VirtualMachineScaleSetNetworkConfiguration =
  nc_Name :: string
  nc_Properties :: "VirtualMachineScaleSetNetworkConfigurationProperties option"

record VMDiskSecurityProfile =
  sp_SecurityEncryptionType :: "string option"
  sp_DiskEncryptionSet :: "SubResource option"

record VirtualMachineScaleSetManagedDiskParameters =
  md_StorageAccountType :: "string option"
  md_DiskEncryptionSet :: "SubResource option"
  md_SecurityProfile :: "VMDiskSecurityProfile option"

record VirtualMachineScaleSetDataDisk =
  dd_Caching :: "string option"
  dd_DiskSizeGB :: "int option"
  dd_Lun :: int
  dd_ManagedDisk :: "VirtualMachineScaleSetManagedDiskParameters option"
  dd_WriteAcceleratorEnabled :: "bool option"
  dd_CreateOption :: string
  dd_Name :: "string option"
  dd_DiskIOPSReadWrite :: "int option"
  dd_DiskMBpsReadWrite :: "int option"

record DiffDiskSettings =
  dds_Option :: "string option"
  dds_Placement :: "string option"

record VirtualMachineScaleSetOSDisk =
  od_Caching :: "string option"
  od_ManagedDisk :: "VirtualMachineScaleSetManagedDiskParameters option"
  od_WriteAcceleratorEnabled :: "bool option"
  od_CreateOption :: string
  od_OsType :: "string option"
  od_DiskSizeGB :: "int option"
  od_DiffDiskSettings :: "DiffDiskSettings option"

record VirtualMachineScaleSetUpdatePublicIPAddressConfigurationProperties =
  upipp_DnsSettings :: "VirtualMachineScaleSetPublicIPAddressConfigurationDnsSettings option"
  upipp_IdleTimeoutInMinutes :: "int option"

record VirtualMachineScaleSetUpdatePublicIPAddressConfiguration =
  upip_Name :: "string option"
  upip_Properties :: "VirtualMachineScaleSetUpdatePublicIPAddressConfigurationProperties option"

record VirtualMachineScaleSetUpdateIPConfigurationProperties =
  uipp_Primary :: "bool option"
  uipp_PrivateIPAddressVersion :: "string option"
  uipp_ApplicationGatewayBackendAddressPools :: "SubResource list option"
  uipp_ApplicationSecurityGroups :: "SubResource list option"
  uipp_LoadBalancerBackendAddressPools :: "SubResource list option"
  uipp_LoadBalancerInboundNatPools :: "SubResource list option"
  uipp_Subnet :: "ApiEntityReference option"
  uipp_PublicIPAddressConfiguration ::
    "VirtualMachineScaleSetUpdatePublicIPAddressConfiguration option"

record VirtualMachineScaleSetUpdateIPConfiguration =
  uipc_Name :: "string option"
  uipc_Properties :: "VirtualMachineScaleSetUpdateIPConfigurationProperties option"

record KeyVaultSecretReference =
  kv_SecretUrl :: string
  kv_SourceVault :: SubResource

record VirtualMachineScaleSetExtensionProperties =
  ep_Publisher :: "string option"
  ep_Type :: "string option"
  ep_TypeHandlerVersion :: "string option"
  ep_AutoUpgradeMinorVersion :: "bool option"
  ep_EnableAutomaticUpgrade :: "bool option"
  ep_ForceUpdateTag :: "string option"
  ep_ProvisionAfterExtensions :: "string list option"
  ep_Settings :: "val option"
  ep_ProtectedSettings :: "val option"
  ep_ProtectedSettingsFromKeyVault :: "KeyVaultSecretReference option"

record VirtualMachineScaleSetExtension =
  ext_Name :: "string option"
  ext_Properties :: "VirtualMachineScaleSetExtensionProperties option"

record VirtualMachineScaleSetExtensionProfile =
  prof_Extensions :: "VirtualMachineScaleSetExtension list option"

text \<open>
  Helpers of the package, of \<open>utils\<close> and of \<open>pluginsdk\<close> that the functions
  below call but that are defined in other files are taken as parameters, with the
  signatures their callers use. \<open>SprintfS\<close> is \<open>fmt.Sprintf\<close> with the verb
  \<open>%s\<close> on a value of any type.
\<close>

record helpers =
  FlattenStringSlice :: "string list option \<Rightarrow> val list"
  expandIDsToSubResources :: "val list \<Rightarrow> SubResource list option"
  flattenSubResourcesToIDs :: "SubResource list option \<Rightarrow> val list"
  flattenProtectedSettingsFromKeyVault :: "KeyVaultSecretReference option \<Rightarrow> val list"
  ExpandJsonFromString :: "string \<Rightarrow> error + cfgmap"
  FlattenJsonToString :: "cfgmap \<Rightarrow> error + string"
  HashString :: "string \<Rightarrow> int"
  SprintfS :: "val \<Rightarrow> string"

definition pointerFrom :: "string option \<Rightarrow> string" where
  "pointerFrom p = (case p of None \<Rightarrow> [] | Some s \<Rightarrow> s)"

definition boolOrFalse :: "bool option \<Rightarrow> bool" where
  "boolOrFalse p = (case p of None \<Rightarrow> False | Some b \<Rightarrow> b)"

definition subResourceId :: "SubResource option \<Rightarrow> string" where
  "subResourceId p = (case p of Some r \<Rightarrow> pointerFrom (sr_Id r) | None \<Rightarrow> [])"

section \<open>Upgrade, termination and repair policies\<close>

text \<open>
  The remaining exported flatten functions of a pointer to a struct. Those of the
  scheduled events profile and of the automatic repairs policy have no early return for
  the nil pointer: they test the pointer before each field access and return a block of
  default values for it, since the service returns no such object when the feature is
  disabled.
\<close>

record AutomaticOSUpgradePolicy =
  aup_DisableAutomaticRollback :: "bool option"
  aup_EnableAutomaticOSUpgrade :: "bool option"

record RollingUpgradePolicy =
  rup_EnableCrossZoneUpgrade :: "bool option"
  rup_MaxBatchInstancePercent :: "int option"
  rup_MaxUnhealthyInstancePercent :: "int option"
  rup_MaxUnhealthyUpgradedInstancePercent :: "int option"
  rup_PauseTimeBetweenBatches :: "string option"
  rup_PrioritizeUnhealthyInstances :: "bool option"

record TerminateNotificationProfile =
  tnp_Enable :: "bool option"
  tnp_NotBeforeTimeout :: "string option"

record ScheduledEventsProfile =
  sep_TerminateNotificationProfile :: "TerminateNotificationProfile option"

record AutomaticRepairsPolicy =
  arp_Enabled :: "bool option"
  arp_GracePeriod :: "string option"

definition intOrZero :: "int option \<Rightarrow> int" where
  "intOrZero p = (case p of None \<Rightarrow> 0 | Some i \<Rightarrow> i)"

definition FlattenVirtualMachineScaleSetAutomaticOSUpgradePolicy ::
    "AutomaticOSUpgradePolicy option \<Rightarrow> val list" where
  "FlattenVirtualMachineScaleSetAutomaticOSUpgradePolicy input =
     (case input of
        None \<Rightarrow> []
      | Some p \<Rightarrow>
          [VMap [''disable_automatic_rollback'' \<mapsto>
                   VBool (boolOrFalse (aup_DisableAutomaticRollback p)),
                 ''enable_automatic_os_upgrade'' \<mapsto>
                   VBool (boolOrFalse (aup_EnableAutomaticOSUpgrade p))]])"

definition FlattenVirtualMachineScaleSetRollingUpgradePolicy ::
    "RollingUpgradePolicy option \<Rightarrow> val list" where
  "FlattenVirtualMachineScaleSetRollingUpgradePolicy input =
     (case input of
        None \<Rightarrow> []
      | Some p \<Rightarrow>
          [VMap [''cross_zone_upgrades_enabled'' \<mapsto>
                   VBool (boolOrFalse (rup_EnableCrossZoneUpgrade p)),
                 ''max_batch_instance_percent'' \<mapsto>
                   VInt (intOrZero (rup_MaxBatchInstancePercent p)),
                 ''max_unhealthy_instance_percent'' \<mapsto>
                   VInt (intOrZero (rup_MaxUnhealthyInstancePercent p)),
                 ''max_unhealthy_upgraded_instance_percent'' \<mapsto>
                   VInt (intOrZero (rup_MaxUnhealthyUpgradedInstancePercent p)),
                 ''pause_time_between_batches'' \<mapsto>
                   VStr (pointerFrom (rup_PauseTimeBetweenBatches p)),
                 ''prioritize_unhealthy_instances_enabled'' \<mapsto>
                   VBool (boolOrFalse (rup_PrioritizeUnhealthyInstances p))]])"

definition FlattenVirtualMachineScaleSetScheduledEventsProfile ::
    "ScheduledEventsProfile option \<Rightarrow> val list" where
  "FlattenVirtualMachineScaleSetScheduledEventsProfile input =
     (let enabled = (case input of
                       Some p \<Rightarrow> (case sep_TerminateNotificationProfile p of
                                    Some t \<Rightarrow> (case tnp_Enable t of Some b \<Rightarrow> b | None \<Rightarrow> False)
                                  | None \<Rightarrow> False)
                     | None \<Rightarrow> False);
          timeout = (case input of
                       Some p \<Rightarrow> (case sep_TerminateNotificationProfile p of
                                    Some t \<Rightarrow> (case tnp_NotBeforeTimeout t of
                                                 Some x \<Rightarrow> x | None \<Rightarrow> ''PT5M'')
                                  | None \<Rightarrow> ''PT5M'')
                     | None \<Rightarrow> ''PT5M'')
      in [VMap [''enabled'' \<mapsto> VBool enabled, ''timeout'' \<mapsto> VStr timeout]])"

definition FlattenVirtualMachineScaleSetAutomaticRepairsPolicy ::
    "AutomaticRepairsPolicy option \<Rightarrow> val list" where
  "FlattenVirtualMachineScaleSetAutomaticRepairsPolicy input =
     (let enabled = (case input of
                       Some p \<Rightarrow> (case arp_Enabled p of Some b \<Rightarrow> b | None \<Rightarrow> False)
                     | None \<Rightarrow> False);
          gracePeriod = (case input of
                           Some p \<Rightarrow> (case arp_GracePeriod p of
                                        Some g \<Rightarrow> g | None \<Rightarrow> ''PT30M'')
                         | None \<Rightarrow> ''PT30M'')
      in [VMap [''enabled'' \<mapsto> VBool enabled, ''grace_period'' \<mapsto> VStr gracePeriod]])"

section \<open>Flattening the network interfaces and the disks\<close>

fun flattenIPTags :: "VirtualMachineScaleSetIPTag list \<Rightarrow> val list" where
  "flattenIPTags [] = []"
| "flattenIPTags (rawTag # rest) =
     VMap [''tag'' \<mapsto> VStr (pointerFrom (tag_Tag rawTag)),
           ''type'' \<mapsto> VStr (pointerFrom (tag_IPTagType rawTag))] # flattenIPTags rest"

definition flattenVirtualMachineScaleSetPublicIPAddress ::
    "VirtualMachineScaleSetPublicIPAddressConfiguration \<Rightarrow> cfgmap" where
  "flattenVirtualMachineScaleSetPublicIPAddress input =
     (case pip_Properties input of
        None \<Rightarrow> Map.empty
      | Some props \<Rightarrow>
          (let ipTags = (case pipp_IPTags props of None \<Rightarrow> [] | Some ts \<Rightarrow> flattenIPTags ts);
               domainNameLabel = (case pipp_DnsSettings props of
                                    None \<Rightarrow> [] | Some d \<Rightarrow> pdns_DomainNameLabel d);
               publicIPPrefixId = subResourceId (pipp_PublicIPPrefix props);
               version = (if pointerFrom (pipp_PublicIPAddressVersion props) \<noteq> []
                          then pointerFrom (pipp_PublicIPAddressVersion props) else []);
               idleTimeoutInMinutes = (case pipp_IdleTimeoutInMinutes props of
                                         None \<Rightarrow> 0 | Some i \<Rightarrow> i)
           in [''name'' \<mapsto> VStr (pip_Name input),
               ''domain_name_label'' \<mapsto> VStr domainNameLabel,
               ''idle_timeout_in_minutes'' \<mapsto> VInt idleTimeoutInMinutes,
               ''ip_tag'' \<mapsto> VList ipTags,
               ''public_ip_prefix_id'' \<mapsto> VStr publicIPPrefixId,
               ''version'' \<mapsto> VStr version]))"

definition flattenVirtualMachineScaleSetIPConfiguration ::
    "helpers \<Rightarrow> VirtualMachineScaleSetIPConfiguration \<Rightarrow> cfgmap" where
  "flattenVirtualMachineScaleSetIPConfiguration h input =
     (case ipc_Properties input of
        None \<Rightarrow> Map.empty
      | Some props \<Rightarrow>
          (let subnetId = (case ipp_Subnet props of
                             Some r \<Rightarrow> pointerFrom (aer_Id r) | None \<Rightarrow> []);
               primary = boolOrFalse (ipp_Primary props);
               publicIPAddresses =
                 (case ipp_PublicIPAddressConfiguration props of
                    None \<Rightarrow> []
                  | Some c \<Rightarrow> [VMap (flattenVirtualMachineScaleSetPublicIPAddress c)])
           in [''name'' \<mapsto> VStr (ipc_Name input),
               ''primary'' \<mapsto> VBool primary,
               ''public_ip_address'' \<mapsto> VList publicIPAddresses,
               ''subnet_id'' \<mapsto> VStr subnetId,
               ''version'' \<mapsto> VStr (pointerFrom (ipp_PrivateIPAddressVersion props)),
               ''application_gateway_backend_address_pool_ids'' \<mapsto>
                 VList (flattenSubResourcesToIDs h (ipp_ApplicationGatewayBackendAddressPools props)),
               ''application_security_group_ids'' \<mapsto>
                 VList (flattenSubResourcesToIDs h (ipp_ApplicationSecurityGroups props)),
               ''load_balancer_backend_address_pool_ids'' \<mapsto>
                 VList (flattenSubResourcesToIDs h (ipp_LoadBalancerBackendAddressPools props)),
               ''load_balancer_inbound_nat_rules_ids'' \<mapsto>
                 VList (flattenSubResourcesToIDs h (ipp_LoadBalancerInboundNatPools props))]))"

fun flattenNetworkConfigurations ::
    "helpers \<Rightarrow> VirtualMachineScaleSetNetworkConfiguration list \<Rightarrow> val list" where
  "flattenNetworkConfigurations h [] = []"
| "flattenNetworkConfigurations h (v # rest) =
     (case nc_Properties v of
        None \<Rightarrow> flattenNetworkConfigurations h rest
      | Some props \<Rightarrow>
          (let networkSecurityGroupId = subResourceId (ncp_NetworkSecurityGroup props);
               enableAcceleratedNetworking = boolOrFalse (ncp_EnableAcceleratedNetworking props);
               enableIPForwarding = boolOrFalse (ncp_EnableIPForwarding props);
               primary = boolOrFalse (ncp_Primary props);
               dnsServers = (case ncp_DnsSettings props of
                               None \<Rightarrow> []
                             | Some settings \<Rightarrow> FlattenStringSlice h (dns_DnsServers settings));
               ipConfigurations =
                 map (\<lambda>configRaw. VMap (flattenVirtualMachineScaleSetIPConfiguration h configRaw))
                     (ncp_IPConfigurations props)
           in VMap [''name'' \<mapsto> VStr (nc_Name v),
                    ''dns_servers'' \<mapsto> VList dnsServers,
                    ''enable_accelerated_networking'' \<mapsto> VBool enableAcceleratedNetworking,
                    ''enable_ip_forwarding'' \<mapsto> VBool enableIPForwarding,
                    ''ip_configuration'' \<mapsto> VList ipConfigurations,
                    ''network_security_group_id'' \<mapsto> VStr networkSecurityGroupId,
                    ''primary'' \<mapsto> VBool primary]
             # flattenNetworkConfigurations h rest))"

definition FlattenVirtualMachineScaleSetNetworkInterface ::
    "helpers \<Rightarrow> VirtualMachineScaleSetNetworkConfiguration list option \<Rightarrow> val list" where
  "FlattenVirtualMachineScaleSetNetworkInterface h input =
     (case input of
        None \<Rightarrow> []
      | Some configs \<Rightarrow> flattenNetworkConfigurations h configs)"

definition flattenDataDisk :: "VirtualMachineScaleSetDataDisk \<Rightarrow> val" where
  "flattenDataDisk v =
     (let name = pointerFrom (dd_Name v);
          diskSizeGb = (case dd_DiskSizeGB v of
                          Some n \<Rightarrow> (if n \<noteq> 0 then n else 0) | None \<Rightarrow> 0);
          storageAccountType = (case dd_ManagedDisk v of
                                  None \<Rightarrow> []
                                | Some md \<Rightarrow> pointerFrom (md_StorageAccountType md));
          diskEncryptionSetId = (case dd_ManagedDisk v of
                                   None \<Rightarrow> []
                                 | Some md \<Rightarrow> subResourceId (md_DiskEncryptionSet md));
          writeAcceleratorEnabled = boolOrFalse (dd_WriteAcceleratorEnabled v);
          iops = (case dd_DiskIOPSReadWrite v of None \<Rightarrow> 0 | Some i \<Rightarrow> i);
          mbps = (case dd_DiskMBpsReadWrite v of None \<Rightarrow> 0 | Some i \<Rightarrow> i)
      in VMap [''name'' \<mapsto> VStr name,
               ''caching'' \<mapsto> VStr (pointerFrom (dd_Caching v)),
               ''create_option'' \<mapsto> VStr (dd_CreateOption v),
               ''lun'' \<mapsto> VInt64 (dd_Lun v),
               ''disk_encryption_set_id'' \<mapsto> VStr diskEncryptionSetId,
               ''disk_size_gb'' \<mapsto> VInt diskSizeGb,
               ''storage_account_type'' \<mapsto> VStr storageAccountType,
               ''ultra_ssd_disk_iops_read_write'' \<mapsto> VInt iops,
               ''ultra_ssd_disk_mbps_read_write'' \<mapsto> VInt mbps,
               ''write_accelerator_enabled'' \<mapsto> VBool writeAcceleratorEnabled])"

definition FlattenVirtualMachineScaleSetDataDisk ::
    "VirtualMachineScaleSetDataDisk list option \<Rightarrow> val list" where
  "FlattenVirtualMachineScaleSetDataDisk input =
     (case input of
        None \<Rightarrow> []
      | Some disks \<Rightarrow> map flattenDataDisk disks)"

definition FlattenVirtualMachineScaleSetOSDisk ::
    "VirtualMachineScaleSetOSDisk option \<Rightarrow> val list" where
  "FlattenVirtualMachineScaleSetOSDisk input =
     (case input of
        None \<Rightarrow> []
      | Some d \<Rightarrow>
          (let diffDiskSettings =
                 (case od_DiffDiskSettings d of
                    None \<Rightarrow> []
                  | Some ds \<Rightarrow> [VMap [''option'' \<mapsto> VStr (pointerFrom (dds_Option ds)),
                                       ''placement'' \<mapsto> VStr (pointerFrom (dds_Placement ds))]]);
               diskSizeGb = (case od_DiskSizeGB d of
                               Some n \<Rightarrow> (if n \<noteq> 0 then n else 0) | None \<Rightarrow> 0);
               storageAccountType = (case od_ManagedDisk d of
                                       None \<Rightarrow> []
                                     | Some md \<Rightarrow> pointerFrom (md_StorageAccountType md));
               diskEncryptionSetId = (case od_ManagedDisk d of
                                        None \<Rightarrow> []
                                      | Some md \<Rightarrow> subResourceId (md_DiskEncryptionSet md));
               securityEncryptionType =
                 (case od_ManagedDisk d of
                    None \<Rightarrow> []
                  | Some md \<Rightarrow> (case md_SecurityProfile md of
                                  None \<Rightarrow> []
                                | Some sp \<Rightarrow> pointerFrom (sp_SecurityEncryptionType sp)));
               secureVMDiskEncryptionSetId =
                 (case od_ManagedDisk d of
                    None \<Rightarrow> []
                  | Some md \<Rightarrow> (case md_SecurityProfile md of
                                  None \<Rightarrow> []
                                | Some sp \<Rightarrow> subResourceId (sp_DiskEncryptionSet sp)));
               writeAcceleratorEnabled = boolOrFalse (od_WriteAcceleratorEnabled d)
           in [VMap [''caching'' \<mapsto> VStr (pointerFrom (od_Caching d)),
                     ''disk_size_gb'' \<mapsto> VInt diskSizeGb,
                     ''diff_disk_settings'' \<mapsto> VList diffDiskSettings,
                     ''storage_account_type'' \<mapsto> VStr storageAccountType,
                     ''write_accelerator_enabled'' \<mapsto> VBool writeAcceleratorEnabled,
                     ''disk_encryption_set_id'' \<mapsto> VStr diskEncryptionSetId,
                     ''secure_vm_disk_encryption_set_id'' \<mapsto> VStr secureVMDiskEncryptionSetId,
                     ''security_encryption_type'' \<mapsto> VStr securityEncryptionType]]))"

section \<open>Expanding an IP configuration\<close>

text \<open>
  The constant \<open>IPVersionIPvSix\<close> of the API client is the string \<open>IPv6\<close>. The
  statements of a Go function run in order, so a panic of an earlier type assertion
  comes before the error of a later check.
\<close>

definition IPVersionIPvSix :: string where
  "IPVersionIPvSix = ''IPv6''"

fun expandIPTags :: "val list \<Rightarrow> error + VirtualMachineScaleSetIPTag list" where
  "expandIPTags [] = Inr []"
| "expandIPTags (ipTagV # rest) =
     bindE (asMap ipTagV) (\<lambda>ipTagRaw.
     bindE (asString (index ipTagRaw ''tag'')) (\<lambda>tag.
     bindE (asString (index ipTagRaw ''type'')) (\<lambda>ty.
     bindE (expandIPTags rest) (\<lambda>tags.
     Inr (\<lparr>tag_Tag = Some tag, tag_IPTagType = Some ty\<rparr> # tags)))))"

definition expandVirtualMachineScaleSetPublicIPAddress ::
    "cfgmap \<Rightarrow> error + VirtualMachineScaleSetPublicIPAddressConfiguration" where
  "expandVirtualMachineScaleSetPublicIPAddress raw =
     bindE (asList (index raw ''ip_tag'')) (\<lambda>ipTagsRaw.
     bindE (expandIPTags ipTagsRaw) (\<lambda>ipTags.
     bindE (asString (index raw ''name'')) (\<lambda>name.
     bindE (asString (index raw ''version'')) (\<lambda>version.
     bindE (asString (index raw ''domain_name_label'')) (\<lambda>domainNameLabel.
     bindE (asInt (index raw ''idle_timeout_in_minutes'')) (\<lambda>idleTimeout.
     bindE (asString (index raw ''public_ip_prefix_id'')) (\<lambda>publicIPPrefixID.
     Inr \<lparr>pip_Name = name,
          pip_Properties = Some
            \<lparr>pipp_IPTags = Some ipTags,
             pipp_PublicIPAddressVersion = Some version,
             pipp_DnsSettings =
               (if domainNameLabel \<noteq> [] then Some \<lparr>pdns_DomainNameLabel = domainNameLabel\<rparr>
                else None),
             pipp_IdleTimeoutInMinutes = (if idleTimeout > 0 then Some idleTimeout else None),
             pipp_PublicIPPrefix =
               (if publicIPPrefixID \<noteq> [] then Some \<lparr>sr_Id = Some publicIPPrefixID\<rparr>
                else None)\<rparr>\<rparr>)))))))"

definition expandVirtualMachineScaleSetIPConfiguration ::
    "helpers \<Rightarrow> cfgmap \<Rightarrow> error + VirtualMachineScaleSetIPConfiguration" where
  "expandVirtualMachineScaleSetIPConfiguration h raw =
     bindE (asBool (index raw ''primary'')) (\<lambda>primary.
     bindE (asString (index raw ''version'')) (\<lambda>version.
     if primary \<and> version = IPVersionIPvSix then Inl IPv6PrimaryUnsupported
     else
       bindE (asString (index raw ''name'')) (\<lambda>name.
       bindE (asSetList (index raw ''application_gateway_backend_address_pool_ids'')) (\<lambda>agw.
       bindE (asSetList (index raw ''application_security_group_ids'')) (\<lambda>asg.
       bindE (asSetList (index raw ''load_balancer_backend_address_pool_ids'')) (\<lambda>lbb.
       bindE (asSetList (index raw ''load_balancer_inbound_nat_rules_ids'')) (\<lambda>lbn.
       bindE (asString (index raw ''subnet_id'')) (\<lambda>subnetId.
       bindE (asList (index raw ''public_ip_address'')) (\<lambda>publicIPConfigsRaw.
       bindE (if length publicIPConfigsRaw > 0
              then bindE (first publicIPConfigsRaw) (\<lambda>v. bindE (asMap v) (\<lambda>publicIPConfigRaw.
                   bindE (expandVirtualMachineScaleSetPublicIPAddress publicIPConfigRaw)
                     (\<lambda>c. Inr (Some c))))
              else Inr None) (\<lambda>publicIPAddressConfig.
       Inr \<lparr>ipc_Name = name,
            ipc_Properties = Some
              \<lparr>ipp_Primary = Some primary,
               ipp_PrivateIPAddressVersion = Some version,
               ipp_ApplicationGatewayBackendAddressPools = expandIDsToSubResources h agw,
               ipp_ApplicationSecurityGroups = expandIDsToSubResources h asg,
               ipp_LoadBalancerBackendAddressPools = expandIDsToSubResources h lbb,
               ipp_LoadBalancerInboundNatPools = expandIDsToSubResources h lbn,
               ipp_Subnet = (if subnetId \<noteq> [] then Some \<lparr>aer_Id = Some subnetId\<rparr> else None),
               ipp_PublicIPAddressConfiguration = publicIPAddressConfig\<rparr>\<rparr>))))))))))"

definition expandVirtualMachineScaleSetPublicIPAddressUpdate ::
    "cfgmap \<Rightarrow> error + VirtualMachineScaleSetUpdatePublicIPAddressConfiguration" where
  "expandVirtualMachineScaleSetPublicIPAddressUpdate raw =
     bindE (asString (index raw ''name'')) (\<lambda>name.
     bindE (asString (index raw ''domain_name_label'')) (\<lambda>domainNameLabel.
     bindE (asInt (index raw ''idle_timeout_in_minutes'')) (\<lambda>idleTimeout.
     Inr \<lparr>upip_Name = Some name,
          upip_Properties = Some
            \<lparr>upipp_DnsSettings =
               (if domainNameLabel \<noteq> [] then Some \<lparr>pdns_DomainNameLabel = domainNameLabel\<rparr>
                else None),
             upipp_IdleTimeoutInMinutes =
               (if idleTimeout > 0 then Some idleTimeout else None)\<rparr>\<rparr>)))"

definition expandVirtualMachineScaleSetIPConfigurationUpdate ::
    "helpers \<Rightarrow> cfgmap \<Rightarrow> error + VirtualMachineScaleSetUpdateIPConfiguration" where
  "expandVirtualMachineScaleSetIPConfigurationUpdate h raw =
     bindE (asSetList (index raw ''application_gateway_backend_address_pool_ids'')) (\<lambda>agw.
     bindE (asSetList (index raw ''application_security_group_ids'')) (\<lambda>asg.
     bindE (asSetList (index raw ''load_balancer_backend_address_pool_ids'')) (\<lambda>lbb.
     bindE (asSetList (index raw ''load_balancer_inbound_nat_rules_ids'')) (\<lambda>lbn.
     bindE (asBool (index raw ''primary'')) (\<lambda>primary.
     bindE (asString (index raw ''version'')) (\<lambda>version.
     if primary \<and> version = IPVersionIPvSix then Inl IPv6PrimaryUnsupported
     else
       bindE (asString (index raw ''name'')) (\<lambda>name.
       bindE (asString (index raw ''subnet_id'')) (\<lambda>subnetId.
       bindE (asList (index raw ''public_ip_address'')) (\<lambda>publicIPConfigsRaw.
       bindE (if length publicIPConfigsRaw > 0
              then bindE (first publicIPConfigsRaw) (\<lambda>v. bindE (asMap v) (\<lambda>publicIPConfigRaw.
                   bindE (expandVirtualMachineScaleSetPublicIPAddressUpdate publicIPConfigRaw)
                     (\<lambda>c. Inr (Some c))))
              else Inr None) (\<lambda>publicIPAddressConfig.
       Inr \<lparr>uipc_Name = Some name,
            uipc_Properties = Some
              \<lparr>uipp_Primary = Some primary,
               uipp_PrivateIPAddressVersion = Some version,
               uipp_ApplicationGatewayBackendAddressPools = expandIDsToSubResources h agw,
               uipp_ApplicationSecurityGroups = expandIDsToSubResources h asg,
               uipp_LoadBalancerBackendAddressPools = expandIDsToSubResources h lbb,
               uipp_LoadBalancerInboundNatPools = expandIDsToSubResources h lbn,
               uipp_Subnet = (if subnetId \<noteq> [] then Some \<lparr>aer_Id = Some subnetId\<rparr> else None),
               uipp_PublicIPAddressConfiguration = publicIPAddressConfig\<rparr>\<rparr>))))))))))"

text \<open>
  The schema of an \<open>ip_configuration\<close> block fixes the type of each field. The
  predicates below say that a value has the shape the schema admits.
\<close>

fun isBool :: "val \<Rightarrow> bool" where
  "isBool (VBool _) = True"
| "isBool _ = False"

fun isInt :: "val \<Rightarrow> bool" where
  "isInt (VInt _) = True"
| "isInt _ = False"

fun isStr :: "val \<Rightarrow> bool" where
  "isStr (VStr _) = True"
| "isStr _ = False"

fun isStrSet :: "val \<Rightarrow> bool" where
  "isStrSet (VSet xs) = list_all isStr xs"
| "isStrSet _ = False"

fun isIPTag :: "val \<Rightarrow> bool" where
  "isIPTag (VMap m) = (isStr (index m ''tag'') \<and> isStr (index m ''type''))"
| "isIPTag _ = False"

fun isIPTagList :: "val \<Rightarrow> bool" where
  "isIPTagList (VList xs) = list_all isIPTag xs"
| "isIPTagList _ = False"

fun isPublicIPAddress :: "val \<Rightarrow> bool" where
  "isPublicIPAddress (VMap m) =
     (isStr (index m ''name'') \<and> isStr (index m ''domain_name_label'') \<and>
      isInt (index m ''idle_timeout_in_minutes'') \<and> isIPTagList (index m ''ip_tag'') \<and>
      isStr (index m ''version'') \<and> isStr (index m ''public_ip_prefix_id''))"
| "isPublicIPAddress _ = False"

fun isPublicIPAddressList :: "val \<Rightarrow> bool" where
  "isPublicIPAddressList (VList xs) = list_all isPublicIPAddress xs"
| "isPublicIPAddressList _ = False"

definition isIPConfiguration :: "cfgmap \<Rightarrow> bool" where
  "isIPConfiguration raw =
     (isStr (index raw ''name'') \<and> isBool (index raw ''primary'') \<and>
      isStr (index raw ''version'') \<and> isStr (index raw ''subnet_id'') \<and>
      isStrSet (index raw ''application_gateway_backend_address_pool_ids'') \<and>
      isStrSet (index raw ''application_security_group_ids'') \<and>
      isStrSet (index raw ''load_balancer_backend_address_pool_ids'') \<and>
      isStrSet (index raw ''load_balancer_inbound_nat_rules_ids'') \<and>
      isPublicIPAddressList (index raw ''public_ip_address''))"

text \<open>
  One instance of the helper parameters and one \<open>ip_configuration\<close> map, for
  evaluating the functions on concrete inputs. The instance's stand-in for the JSON
  codec reads a text up to its spaces.
\<close>

definition sampleSubResources :: "val list \<Rightarrow> SubResource list option" where
  "sampleSubResources xs =
     Some (map (\<lambda>v. \<lparr>sr_Id = Some (case v of VStr s \<Rightarrow> s | _ \<Rightarrow> [])\<rparr>) xs)"

definition sampleExpandJson :: "string \<Rightarrow> error + cfgmap" where
  "sampleExpandJson s =
     (let body = filter (\<lambda>c. c \<noteq> CHR '' '') s
      in if body = [] then Inl JsonError else Inr [''json'' \<mapsto> VStr body])"

definition sampleFlattenJson :: "cfgmap \<Rightarrow> error + string" where
  "sampleFlattenJson m = (case m ''json'' of Some (VStr body) \<Rightarrow> Inr body | _ \<Rightarrow> Inl JsonError)"

definition sampleHelpers :: helpers where
  "sampleHelpers =
     \<lparr>FlattenStringSlice = (\<lambda>p. case p of None \<Rightarrow> [] | Some xs \<Rightarrow> map VStr xs),
      expandIDsToSubResources = sampleSubResources,
      flattenSubResourcesToIDs =
        (\<lambda>p. case p of None \<Rightarrow> [] | Some rs \<Rightarrow> map (\<lambda>r. VStr (pointerFrom (sr_Id r))) rs),
      flattenProtectedSettingsFromKeyVault = (\<lambda>_. []),
      ExpandJsonFromString = sampleExpandJson,
      FlattenJsonToString = sampleFlattenJson,
      HashString = (\<lambda>s. int (length s)),
      SprintfS = (\<lambda>v. case v of VStr s \<Rightarrow> s | _ \<Rightarrow> [])\<rparr>"

definition sampleIPConfiguration :: "bool \<Rightarrow> string \<Rightarrow> cfgmap" where
  "sampleIPConfiguration primary version =
     [''name'' \<mapsto> VStr ''internal'',
      ''primary'' \<mapsto> VBool primary,
      ''version'' \<mapsto> VStr version,
      ''subnet_id'' \<mapsto> VStr [],
      ''application_gateway_backend_address_pool_ids'' \<mapsto> VSet [],
      ''application_security_group_ids'' \<mapsto> VSet [],
      ''load_balancer_backend_address_pool_ids'' \<mapsto> VSet [VStr ''pool1''],
      ''load_balancer_inbound_nat_rules_ids'' \<mapsto> VSet [],
      ''public_ip_address'' \<mapsto> VList []]"

section \<open>Expanding the data disks\<close>

text \<open>
  The constant \<open>StorageAccountTypesPremiumVTwoLRS\<close> of the API client is the string
  \<open>PremiumV2_LRS\<close>. The loop over the input returns at the first disk that fails a
  check; the disks before it are dropped with the partial result.
\<close>

definition StorageAccountTypesPremiumVTwoLRS :: string where
  "StorageAccountTypesPremiumVTwoLRS = ''PremiumV2_LRS''"

definition readOptionalInt :: "cfgmap \<Rightarrow> string \<Rightarrow> error + int" where
  "readOptionalInt raw k =
     (case raw k of
        None \<Rightarrow> Inr 0
      | Some d \<Rightarrow> bindE (asInt d) (\<lambda>i. Inr (if i > 0 then i else 0)))"

definition expandDataDisk :: "bool \<Rightarrow> val \<Rightarrow> error + VirtualMachineScaleSetDataDisk" where
  "expandDataDisk ultraSSDEnabled v =
     bindE (asMap v) (\<lambda>raw.
     bindE (asString (index raw ''storage_account_type'')) (\<lambda>storageAccountType.
     bindE (asString (index raw ''caching'')) (\<lambda>caching.
     bindE (asInt (index raw ''disk_size_gb'')) (\<lambda>diskSizeGb.
     bindE (asInt (index raw ''lun'')) (\<lambda>lun.
     bindE (asBool (index raw ''write_accelerator_enabled'')) (\<lambda>writeAccelerator.
     bindE (asString (index raw ''create_option'')) (\<lambda>createOption.
     bindE (if \<not> isNil (index raw ''name'')
            then bindE (asString (index raw ''name''))
                   (\<lambda>n. Inr (if n \<noteq> [] then Some n else None))
            else Inr None) (\<lambda>name.
     bindE (asString (index raw ''disk_encryption_set_id'')) (\<lambda>id.
     bindE (readOptionalInt raw ''ultra_ssd_disk_iops_read_write'') (\<lambda>iops.
     if iops > 0 \<and> \<not> ultraSSDEnabled \<and> storageAccountType \<noteq> StorageAccountTypesPremiumVTwoLRS
     then Inl IopsNeedsUltraSSD
     else
       bindE (readOptionalInt raw ''ultra_ssd_disk_mbps_read_write'') (\<lambda>mbps.
       if mbps > 0 \<and> \<not> ultraSSDEnabled \<and> storageAccountType \<noteq> StorageAccountTypesPremiumVTwoLRS
       then Inl MbpsNeedsUltraSSD
       else
         Inr \<lparr>dd_Caching = Some caching,
              dd_DiskSizeGB = Some diskSizeGb,
              dd_Lun = lun,
              dd_ManagedDisk = Some
                \<lparr>md_StorageAccountType = Some storageAccountType,
                 md_DiskEncryptionSet = (if id \<noteq> [] then Some \<lparr>sr_Id = Some id\<rparr> else None),
                 md_SecurityProfile = None\<rparr>,
              dd_WriteAcceleratorEnabled = Some writeAccelerator,
              dd_CreateOption = createOption,
              dd_Name = name,
              dd_DiskIOPSReadWrite = (if iops > 0 then Some iops else None),
              dd_DiskMBpsReadWrite = (if mbps > 0 then Some mbps else None)\<rparr>)))))))))))"

fun expandDataDisks :: "bool \<Rightarrow> val list \<Rightarrow> error + VirtualMachineScaleSetDataDisk list" where
  "expandDataDisks ultraSSDEnabled [] = Inr []"
| "expandDataDisks ultraSSDEnabled (v # rest) =
     bindE (expandDataDisk ultraSSDEnabled v) (\<lambda>disk.
     bindE (expandDataDisks ultraSSDEnabled rest) (\<lambda>disks.
     Inr (disk # disks)))"

definition ExpandVirtualMachineScaleSetDataDisk ::
    "val list \<Rightarrow> bool \<Rightarrow> error + VirtualMachineScaleSetDataDisk list option" where
  "ExpandVirtualMachineScaleSetDataDisk input ultraSSDEnabled =
     bindE (expandDataDisks ultraSSDEnabled input) (\<lambda>disks. Inr (Some disks))"

text \<open>
  The shape the schema of a \<open>data_disk\<close> block admits, and the three fields of a
  block that the check reads.
\<close>

fun isOptionalInt :: "val option \<Rightarrow> bool" where
  "isOptionalInt None = True"
| "isOptionalInt (Some v) = isInt v"

fun isDataDisk :: "val \<Rightarrow> bool" where
  "isDataDisk (VMap raw) =
     (isStr (index raw ''storage_account_type'') \<and> isStr (index raw ''caching'') \<and>
      isInt (index raw ''disk_size_gb'') \<and> isInt (index raw ''lun'') \<and>
      isBool (index raw ''write_accelerator_enabled'') \<and> isStr (index raw ''create_option'') \<and>
      (isNil (index raw ''name'') \<or> isStr (index raw ''name'')) \<and>
      isStr (index raw ''disk_encryption_set_id'') \<and>
      isOptionalInt (raw ''ultra_ssd_disk_iops_read_write'') \<and>
      isOptionalInt (raw ''ultra_ssd_disk_mbps_read_write''))"
| "isDataDisk _ = False"

fun fieldInt :: "val \<Rightarrow> string \<Rightarrow> int" where
  "fieldInt (VMap raw) k = (case raw k of Some (VInt i) \<Rightarrow> i | _ \<Rightarrow> 0)"
| "fieldInt _ k = 0"

fun fieldStr :: "val \<Rightarrow> string \<Rightarrow> string" where
  "fieldStr (VMap raw) k = (case raw k of Some (VStr s) \<Rightarrow> s | _ \<Rightarrow> [])"
| "fieldStr _ k = []"

definition diskRejected :: "bool \<Rightarrow> val \<Rightarrow> bool" where
  "diskRejected ultraSSDEnabled d =
     ((fieldInt d ''ultra_ssd_disk_iops_read_write'' > 0 \<or>
       fieldInt d ''ultra_ssd_disk_mbps_read_write'' > 0) \<and>
      \<not> ultraSSDEnabled \<and>
      fieldStr d ''storage_account_type'' \<noteq> StorageAccountTypesPremiumVTwoLRS)"

definition sampleDataDisk :: "string \<Rightarrow> int \<Rightarrow> int \<Rightarrow> val" where
  "sampleDataDisk storageAccountType iops mbps =
     VMap [''storage_account_type'' \<mapsto> VStr storageAccountType,
           ''caching'' \<mapsto> VStr ''None'',
           ''disk_size_gb'' \<mapsto> VInt 64,
           ''lun'' \<mapsto> VInt 1,
           ''write_accelerator_enabled'' \<mapsto> VBool False,
           ''create_option'' \<mapsto> VStr ''Empty'',
           ''name'' \<mapsto> VStr ''data1'',
           ''disk_encryption_set_id'' \<mapsto> VStr [],
           ''ultra_ssd_disk_iops_read_write'' \<mapsto> VInt iops,
           ''ultra_ssd_disk_mbps_read_write'' \<mapsto> VInt mbps]"

section \<open>Extensions\<close>

text \<open>
  \<open>ResourceData\<close> is used through its method \<open>GetOk\<close> alone, which maps a key to a
  value and a flag; it is modelled as that function. The field \<open>extension\<close> of the
  state is a set of extension blocks, read in the order of the set's list.
\<close>

type_synonym ResourceData = "string \<Rightarrow> val \<times> bool"

definition normalizedJson :: "helpers \<Rightarrow> string \<Rightarrow> string" where
  "normalizedJson h settings =
     (if settings \<noteq> [] then
        (case ExpandJsonFromString h settings of
           Inl _ \<Rightarrow> []
         | Inr expandedSettings \<Rightarrow>
             (case FlattenJsonToString h expandedSettings of
                Inl _ \<Rightarrow> []
              | Inr serializedSettings \<Rightarrow> serializedSettings @ ''-''))
      else [])"

definition virtualMachineScaleSetExtensionHash :: "helpers \<Rightarrow> val \<Rightarrow> error + int" where
  "virtualMachineScaleSetExtensionHash h v =
     (case v of
        VMap m \<Rightarrow>
          bindE (asString (index m ''name'')) (\<lambda>name.
          bindE (asString (index m ''publisher'')) (\<lambda>publisher.
          bindE (asString (index m ''type'')) (\<lambda>ty.
          bindE (asString (index m ''type_handler_version'')) (\<lambda>typeHandlerVersion.
          bindE (asBool (index m ''auto_upgrade_minor_version'')) (\<lambda>autoUpgrade.
          bindE (asString (index m ''settings'')) (\<lambda>settings.
          bindE (case m ''protected_settings'' of
                   None \<Rightarrow> Inr []
                 | Some ps \<Rightarrow> bindE (asString ps) (\<lambda>s. Inr (normalizedJson h s))) (\<lambda>protected.
          bindE (case m ''protected_settings_from_key_vault'' of
                   None \<Rightarrow> Inr []
                 | Some kv \<Rightarrow>
                     bindE (asList kv) (\<lambda>protectedSettingsFromKeyVault.
                     if length protectedSettingsFromKeyVault > 0 then
                       bindE (first protectedSettingsFromKeyVault) (\<lambda>e.
                       bindE (asMap e) (\<lambda>km.
                       bindE (asString (index km ''secret_url'')) (\<lambda>secretUrl.
                       bindE (asString (index km ''source_vault_id'')) (\<lambda>sourceVaultId.
                       Inr (secretUrl @ ''-'' @ sourceVaultId @ ''-'')))))
                     else Inr [])) (\<lambda>keyVault.
          Inr (HashString h
                 (name @ ''-'' @ publisher @ ''-'' @ ty @ ''-'' @ typeHandlerVersion @ ''-'' @
                  (if autoUpgrade then ''true'' else ''false'') @ ''-'' @
                  (case m ''force_update_tag'' of None \<Rightarrow> [] | Some t \<Rightarrow> SprintfS h t @ ''-'') @
                  (case m ''provision_after_extensions'' of
                     None \<Rightarrow> [] | Some p \<Rightarrow> SprintfS h p @ ''-'') @
                  normalizedJson h settings @ protected @ keyVault))))))))))
      | _ \<Rightarrow> Inr (HashString h []))"

fun extensionsFromStateOf ::
    "val list \<Rightarrow> (string \<Rightarrow> cfgmap option) \<Rightarrow> error + (string \<Rightarrow> cfgmap option)" where
  "extensionsFromStateOf [] acc = Inr acc"
| "extensionsFromStateOf (ext # rest) acc =
     (if isNil ext then extensionsFromStateOf rest acc
      else bindE (asMap ext) (\<lambda>m.
           bindE (asString (index m ''name'')) (\<lambda>name.
           extensionsFromStateOf rest (acc(name \<mapsto> m)))))"

definition readExtensionsFromState :: "ResourceData \<Rightarrow> error + (string \<Rightarrow> cfgmap option)" where
  "readExtensionsFromState d =
     (case d ''extension'' of
        (extSet, ok) \<Rightarrow>
          if ok \<and> \<not> isNil extSet
          then bindE (asSetList extSet) (\<lambda>extensions. extensionsFromStateOf extensions Map.empty)
          else Inr Map.empty)"

definition protectedSettingsFromState ::
    "(string \<Rightarrow> cfgmap option) \<Rightarrow> string \<Rightarrow> error + string" where
  "protectedSettingsFromState extensionsFromState name =
     (case extensionsFromState name of
        None \<Rightarrow> Inr []
      | Some ext \<Rightarrow>
          (case ext ''protected_settings'' of
             None \<Rightarrow> Inr []
           | Some fromState \<Rightarrow>
               bindE (asString fromState) (\<lambda>s.
               Inr (if s \<noteq> [] \<and> s \<noteq> ''{}'' then s else []))))"

definition flattenExtension ::
    "helpers \<Rightarrow> (string \<Rightarrow> cfgmap option) \<Rightarrow> VirtualMachineScaleSetExtension \<Rightarrow> error + cfgmap" where
  "flattenExtension h extensionsFromState v =
     (let name = pointerFrom (ext_Name v);
          props = ext_Properties v
      in bindE (case props of
                  None \<Rightarrow> Inr []
                | Some p \<Rightarrow>
                    (case ep_Settings p of
                       Some (VMap settings) \<Rightarrow> FlattenJsonToString h settings
                     | _ \<Rightarrow> Inr [])) (\<lambda>extSettings.
         bindE (protectedSettingsFromState extensionsFromState name) (\<lambda>protectedSettings.
         Inr [''name'' \<mapsto> VStr name,
              ''auto_upgrade_minor_version'' \<mapsto>
                VBool (case props of None \<Rightarrow> False
                       | Some p \<Rightarrow> boolOrFalse (ep_AutoUpgradeMinorVersion p)),
              ''automatic_upgrade_enabled'' \<mapsto>
                VBool (case props of None \<Rightarrow> False
                       | Some p \<Rightarrow> boolOrFalse (ep_EnableAutomaticUpgrade p)),
              ''force_update_tag'' \<mapsto>
                VStr (case props of None \<Rightarrow> [] | Some p \<Rightarrow> pointerFrom (ep_ForceUpdateTag p)),
              ''provision_after_extensions'' \<mapsto>
                VList (case props of None \<Rightarrow> []
                       | Some p \<Rightarrow>
                           (case ep_ProvisionAfterExtensions p of
                              None \<Rightarrow> []
                            | Some xs \<Rightarrow> FlattenStringSlice h (Some xs))),
              ''protected_settings'' \<mapsto> VStr protectedSettings,
              ''protected_settings_from_key_vault'' \<mapsto>
                VList (flattenProtectedSettingsFromKeyVault h
                         (case props of None \<Rightarrow> None
                          | Some p \<Rightarrow> ep_ProtectedSettingsFromKeyVault p)),
              ''publisher'' \<mapsto>
                VStr (case props of None \<Rightarrow> [] | Some p \<Rightarrow> pointerFrom (ep_Publisher p)),
              ''settings'' \<mapsto> VStr extSettings,
              ''type'' \<mapsto>
                VStr (case props of None \<Rightarrow> [] | Some p \<Rightarrow> pointerFrom (ep_Type p)),
              ''type_handler_version'' \<mapsto>
                VStr (case props of None \<Rightarrow> []
                      | Some p \<Rightarrow> pointerFrom (ep_TypeHandlerVersion p))])))"

fun flattenExtensionList ::
    "helpers \<Rightarrow> (string \<Rightarrow> cfgmap option) \<Rightarrow> VirtualMachineScaleSetExtension list \<Rightarrow>
     error + cfgmap list" where
  "flattenExtensionList h extensionsFromState [] = Inr []"
| "flattenExtensionList h extensionsFromState (v # rest) =
     bindE (flattenExtension h extensionsFromState v) (\<lambda>m.
     bindE (flattenExtensionList h extensionsFromState rest) (\<lambda>ms.
     Inr (m # ms)))"

definition flattenVirtualMachineScaleSetExtensions ::
    "helpers \<Rightarrow> VirtualMachineScaleSetExtensionProfile option \<Rightarrow> ResourceData \<Rightarrow>
     error + cfgmap list" where
  "flattenVirtualMachineScaleSetExtensions h input d =
     (case input of
        None \<Rightarrow> Inr []
      | Some profile \<Rightarrow>
          (case prof_Extensions profile of
             None \<Rightarrow> Inr []
           | Some extensions \<Rightarrow>
               bindE (readExtensionsFromState d) (\<lambda>extensionsFromState.
               flattenExtensionList h extensionsFromState extensions)))"

text \<open>
  The extension blocks of the prior state, the block stored under a name (the last one
  of that name in the set's list), and the value the state holds for the protected
  settings of a name: the stored string when it is neither empty nor \<open>{}\<close>, and the
  empty string otherwise.
\<close>

definition stateExtensions :: "ResourceData \<Rightarrow> val list" where
  "stateExtensions d = (case d ''extension'' of (VSet xs, True) \<Rightarrow> xs | _ \<Rightarrow> [])"

fun storedUnder :: "val list \<Rightarrow> string \<Rightarrow> cfgmap option" where
  "storedUnder [] name = None"
| "storedUnder (ext # rest) name =
     (case storedUnder rest name of
        Some m \<Rightarrow> Some m
      | None \<Rightarrow> (case ext of
                   VMap m \<Rightarrow> (if m ''name'' = Some (VStr name) then Some m else None)
                 | _ \<Rightarrow> None))"

definition storedProtectedSettings :: "val list \<Rightarrow> string \<Rightarrow> string" where
  "storedProtectedSettings exts name =
     (case storedUnder exts name of
        None \<Rightarrow> []
      | Some m \<Rightarrow>
          (case m ''protected_settings'' of
             Some (VStr s) \<Rightarrow> (if s \<noteq> [] \<and> s \<noteq> ''{}'' then s else [])
           | _ \<Rightarrow> []))"

text \<open>
  The shape of the prior state that the schema admits: the field \<open>extension\<close> is
  absent, nil, or a set whose entries are nil or blocks with a string \<open>name\<close> and, if
  present, a string \<open>protected_settings\<close>. And the extensions of a response whose
  settings, where they are a JSON object, the JSON helper can serialise.
\<close>

definition protectedSettingsTyped :: "cfgmap \<Rightarrow> bool" where
  "protectedSettingsTyped m =
     (case m ''protected_settings'' of None \<Rightarrow> True | Some v \<Rightarrow> isStr v)"

fun isStateExtension :: "val \<Rightarrow> bool" where
  "isStateExtension VNil = True"
| "isStateExtension (VMap m) = (isStr (index m ''name'') \<and> protectedSettingsTyped m)"
| "isStateExtension _ = False"

definition isExtensionState :: "ResourceData \<Rightarrow> bool" where
  "isExtensionState d =
     (case d ''extension'' of
        (extSet, ok) \<Rightarrow>
          (if ok \<and> \<not> isNil extSet
           then (case extSet of VSet xs \<Rightarrow> list_all isStateExtension xs | _ \<Rightarrow> False)
           else True))"

definition settingsSerialise :: "helpers \<Rightarrow> VirtualMachineScaleSetExtension \<Rightarrow> bool" where
  "settingsSerialise h v =
     (case ext_Properties v of
        None \<Rightarrow> True
      | Some p \<Rightarrow>
          (case ep_Settings p of
             Some (VMap settings) \<Rightarrow>
               (case FlattenJsonToString h settings of Inr _ \<Rightarrow> True | Inl _ \<Rightarrow> False)
           | _ \<Rightarrow> True))"

text \<open>
  One extension block of the configuration, one API response with four extensions (the
  first carries protected settings, which the service does not return in practice) and
  one prior state that holds the first three, with a secret, with \<open>{}\<close> and with the
  empty string, for evaluating the functions on concrete inputs.
\<close>

definition sampleExtensionBlock :: "string \<Rightarrow> string \<Rightarrow> string \<Rightarrow> cfgmap" where
  "sampleExtensionBlock name settings protected =
     [''name'' \<mapsto> VStr name,
      ''publisher'' \<mapsto> VStr ''Microsoft.Azure.Extensions'',
      ''type'' \<mapsto> VStr ''CustomScript'',
      ''type_handler_version'' \<mapsto> VStr ''2.0'',
      ''auto_upgrade_minor_version'' \<mapsto> VBool True,
      ''settings'' \<mapsto> VStr settings,
      ''protected_settings'' \<mapsto> VStr protected]"

definition sampleExtensionProfile :: VirtualMachineScaleSetExtensionProfile where
  "sampleExtensionProfile =
     \<lparr>prof_Extensions = Some
        [\<lparr>ext_Name = Some ''first'',
          ext_Properties = Some
            \<lparr>ep_Publisher = Some ''Microsoft.Azure.Extensions'',
             ep_Type = Some ''CustomScript'',
             ep_TypeHandlerVersion = Some ''2.0'',
             ep_AutoUpgradeMinorVersion = Some True,
             ep_EnableAutomaticUpgrade = None,
             ep_ForceUpdateTag = None,
             ep_ProvisionAfterExtensions = None,
             ep_Settings = None,
             ep_ProtectedSettings = Some (VStr ''{api}''),
             ep_ProtectedSettingsFromKeyVault = None\<rparr>\<rparr>,
         \<lparr>ext_Name = Some ''second'', ext_Properties = None\<rparr>,
         \<lparr>ext_Name = Some ''third'', ext_Properties = None\<rparr>,
         \<lparr>ext_Name = Some ''fourth'', ext_Properties = None\<rparr>]\<rparr>"

definition sampleState :: ResourceData where
  "sampleState k =
     (if k = ''extension''
      then (VSet [VMap (sampleExtensionBlock ''first'' [] ''{secret}''),
                  VMap (sampleExtensionBlock ''second'' [] ''{}''),
                  VMap (sampleExtensionBlock ''third'' [] [])], True)
      else (VNil, False))"

section \<open>Resource identifiers\<close>

text \<open>
  The sources hold the tests of three resource identifier parsers (\<open>DataFactoryID\<close>,
  \<open>ExpressRoutePortID\<close> with \<open>ExpressRoutePortIDInsensitively\<close>,
  \<open>BlobInventoryPolicyID\<close>), but neither the parsers nor the formatters \<open>ID()\<close>.
  These are modelled from the specification, which gives the path form
  \<open>/subscriptions/{id}/resourceGroups/{name}/providers/{namespace}/{type}/{name}\<close>,
  says that parsing and then formatting yields the original string, and that inputs
  that miss a required segment, or that use another casing in the case-sensitive
  variant, are rejected. The test tables fix the segment names of each resource.
\<close>

text \<open>\<open>strings.Split(s, "/")\<close> and \<open>strings.Join(xs, "/")\<close>.\<close>

fun splitSlash :: "string \<Rightarrow> string list" where
  "splitSlash [] = [[]]"
| "splitSlash (c # cs) =
     (if c = CHR ''/'' then [] # splitSlash cs
      else (case splitSlash cs of
              w # ws \<Rightarrow> (c # w) # ws
            | [] \<Rightarrow> [[c]]))"

fun joinSlash :: "string list \<Rightarrow> string" where
  "joinSlash [] = []"
| "joinSlash [w] = w"
| "joinSlash (w # ws) = w @ ''/'' @ joinSlash ws"

datatype idError =
    NoLeadingSlash
  | MissingSegment
  | WrongSegment
  | EmptyValue
  | UnexpectedSegment

text \<open>
  Modelled from the spec: the shape of a resource identifier. A path is a sequence of
  segments: a fixed name (\<open>subscriptions\<close>, \<open>resourceGroups\<close>, \<open>providers\<close>, the
  provider namespace, the name of a resource type), or a value that the user chooses.
\<close>

datatype segment =
    Fixed string
  | UserValue

text \<open>
  Modelled from the spec: two segment names are the same up to casing when they agree
  after the letters \<open>A\<close> .. \<open>Z\<close> are lowered. The fixed names are ASCII.
\<close>

definition foldCase :: "string \<Rightarrow> string" where
  "foldCase s = map toLowerByte s"

text \<open>
  Modelled from the spec: the parsing of the segments, which the missing parsers share.
  It reads the segments from left to right. The case-sensitive variant wants a fixed
  name written as given; the case-insensitive variant (\<open>insensitively\<close>) accepts a
  fixed name in any casing. A value has to be non-empty. Nothing may follow the last
  segment.
\<close>

fun parseSegments :: "bool \<Rightarrow> segment list \<Rightarrow> string list \<Rightarrow> idError + string list" where
  "parseSegments insensitively [] [] = Inr []"
| "parseSegments insensitively [] (c # cs) = Inl UnexpectedSegment"
| "parseSegments insensitively (s # segs) [] = Inl MissingSegment"
| "parseSegments insensitively (Fixed n # segs) (c # cs) =
     (if c = n \<or> (insensitively \<and> foldCase c = foldCase n)
      then parseSegments insensitively segs cs else Inl WrongSegment)"
| "parseSegments insensitively (UserValue # segs) (c # cs) =
     (if c = [] then Inl EmptyValue
      else (case parseSegments insensitively segs cs of
              Inl e \<Rightarrow> Inl e
            | Inr vs \<Rightarrow> Inr (c # vs)))"

text \<open>
  Modelled from the spec: the parsing of an identifier string, which the missing parsers
  share. The string starts with a slash, and the segments are what the slashes separate.
\<close>

definition parseResourceId :: "bool \<Rightarrow> segment list \<Rightarrow> string \<Rightarrow> idError + string list" where
  "parseResourceId insensitively segs input =
     (case splitSlash input of
        [] # comps \<Rightarrow> parseSegments insensitively segs comps
      | _ \<Rightarrow> Inl NoLeadingSlash)"

text \<open>
  Modelled from the spec: the identifier structs \<open>DataFactoryId\<close>,
  \<open>ExpressRoutePortId\<close> and \<open>BlobInventoryPolicyId\<close> and their constructors, whose
  declarations are missing; the fields are those that the tests read.
\<close>

record DataFactoryId =
  df_SubscriptionId :: string
  df_ResourceGroup :: string
  df_FactoryName :: string

record ExpressRoutePortId =
  erp_SubscriptionId :: string
  erp_ResourceGroup :: string
  erp_Name :: string

record BlobInventoryPolicyId =
  bip_SubscriptionId :: string
  bip_ResourceGroup :: string
  bip_StorageAccountName :: string
  bip_InventoryPolicyName :: string

text \<open>
  Modelled from the spec: the constructors \<open>NewDataFactoryID\<close>,
  \<open>NewExpressRoutePortID\<close> and \<open>NewBlobInventoryPolicyID\<close>, which are missing; each
  stores its arguments in the fields, in the order of the formatter tests.
\<close>

definition NewDataFactoryID :: "string \<Rightarrow> string \<Rightarrow> string \<Rightarrow> DataFactoryId" where
  "NewDataFactoryID subscriptionId resourceGroup factoryName =
     \<lparr>df_SubscriptionId = subscriptionId, df_ResourceGroup = resourceGroup,
      df_FactoryName = factoryName\<rparr>"

definition NewExpressRoutePortID :: "string \<Rightarrow> string \<Rightarrow> string \<Rightarrow> ExpressRoutePortId" where
  "NewExpressRoutePortID subscriptionId resourceGroup name =
     \<lparr>erp_SubscriptionId = subscriptionId, erp_ResourceGroup = resourceGroup, erp_Name = name\<rparr>"

definition NewBlobInventoryPolicyID ::
    "string \<Rightarrow> string \<Rightarrow> string \<Rightarrow> string \<Rightarrow> BlobInventoryPolicyId" where
  "NewBlobInventoryPolicyID subscriptionId resourceGroup storageAccountName inventoryPolicyName =
     \<lparr>bip_SubscriptionId = subscriptionId, bip_ResourceGroup = resourceGroup,
      bip_StorageAccountName = storageAccountName,
      bip_InventoryPolicyName = inventoryPolicyName\<rparr>"

text \<open>
  Modelled from the spec: the formatters \<open>ID()\<close> of the three identifier structs, which
  are missing. The formatter tests give the string of each resource.
\<close>

definition DataFactoryId_ID :: "DataFactoryId \<Rightarrow> string" where
  "DataFactoryId_ID rid =
     ''/subscriptions/'' @ df_SubscriptionId rid @ ''/resourceGroups/'' @ df_ResourceGroup rid @
     ''/providers/Microsoft.DataFactory/factories/'' @ df_FactoryName rid"

definition ExpressRoutePortId_ID :: "ExpressRoutePortId \<Rightarrow> string" where
  "ExpressRoutePortId_ID rid =
     ''/subscriptions/'' @ erp_SubscriptionId rid @ ''/resourceGroups/'' @ erp_ResourceGroup rid @
     ''/providers/Microsoft.Network/expressRoutePorts/'' @ erp_Name rid"

definition BlobInventoryPolicyId_ID :: "BlobInventoryPolicyId \<Rightarrow> string" where
  "BlobInventoryPolicyId_ID rid =
     ''/subscriptions/'' @ bip_SubscriptionId rid @ ''/resourceGroups/'' @ bip_ResourceGroup rid @
     ''/providers/Microsoft.Storage/storageAccounts/'' @ bip_StorageAccountName rid @
     ''/inventoryPolicies/'' @ bip_InventoryPolicyName rid"

text \<open>
  Modelled from the spec: the segments of the three resources, which the missing
  parsers fix; the names are those of the test tables.
\<close>

definition dataFactorySegments :: "segment list" where
  "dataFactorySegments =
     [Fixed ''subscriptions'', UserValue, Fixed ''resourceGroups'', UserValue,
      Fixed ''providers'', Fixed ''Microsoft.DataFactory'',
      Fixed ''factories'', UserValue]"

definition expressRoutePortSegments :: "segment list" where
  "expressRoutePortSegments =
     [Fixed ''subscriptions'', UserValue, Fixed ''resourceGroups'', UserValue,
      Fixed ''providers'', Fixed ''Microsoft.Network'',
      Fixed ''expressRoutePorts'', UserValue]"

definition blobInventoryPolicySegments :: "segment list" where
  "blobInventoryPolicySegments =
     [Fixed ''subscriptions'', UserValue, Fixed ''resourceGroups'', UserValue,
      Fixed ''providers'', Fixed ''Microsoft.Storage'',
      Fixed ''storageAccounts'', UserValue,
      Fixed ''inventoryPolicies'', UserValue]"

text \<open>
  Modelled from the spec: the parsers \<open>DataFactoryID\<close>, \<open>ExpressRoutePortID\<close>,
  \<open>ExpressRoutePortIDInsensitively\<close> and \<open>BlobInventoryPolicyID\<close>, which are missing.
  Each returns the parsed identifier or an error.
\<close>

definition DataFactoryID :: "string \<Rightarrow> idError + DataFactoryId" where
  "DataFactoryID input =
     (case parseResourceId False dataFactorySegments input of
        Inl e \<Rightarrow> Inl e
      | Inr [subscriptionId, resourceGroup, factoryName] \<Rightarrow>
          Inr (NewDataFactoryID subscriptionId resourceGroup factoryName)
      | Inr _ \<Rightarrow> Inl MissingSegment)"

definition ExpressRoutePortID :: "string \<Rightarrow> idError + ExpressRoutePortId" where
  "ExpressRoutePortID input =
     (case parseResourceId False expressRoutePortSegments input of
        Inl e \<Rightarrow> Inl e
      | Inr [subscriptionId, resourceGroup, name] \<Rightarrow>
          Inr (NewExpressRoutePortID subscriptionId resourceGroup name)
      | Inr _ \<Rightarrow> Inl MissingSegment)"

definition ExpressRoutePortIDInsensitively :: "string \<Rightarrow> idError + ExpressRoutePortId" where
  "ExpressRoutePortIDInsensitively input =
     (case parseResourceId True expressRoutePortSegments input of
        Inl e \<Rightarrow> Inl e
      | Inr [subscriptionId, resourceGroup, name] \<Rightarrow>
          Inr (NewExpressRoutePortID subscriptionId resourceGroup name)
      | Inr _ \<Rightarrow> Inl MissingSegment)"

definition BlobInventoryPolicyID :: "string \<Rightarrow> idError + BlobInventoryPolicyId" where
  "BlobInventoryPolicyID input =
     (case parseResourceId False blobInventoryPolicySegments input of
        Inl e \<Rightarrow> Inl e
      | Inr [subscriptionId, resourceGroup, storageAccountName, inventoryPolicyName] \<Rightarrow>
          Inr (NewBlobInventoryPolicyID subscriptionId resourceGroup storageAccountName
                 inventoryPolicyName)
      | Inr _ \<Rightarrow> Inl MissingSegment)"

text \<open>
  The identifier whose segments, as written, are \<open>comps\<close>; and the segments of the
  canonical identifier of a resource with the given values.
\<close>

definition resourcePath :: "string list \<Rightarrow> string" where
  "resourcePath comps = joinSlash ([] # comps)"

fun render :: "segment list \<Rightarrow> string list \<Rightarrow> string list" where
  "render [] vs = []"
| "render (Fixed n # segs) vs = n # render segs vs"
| "render (UserValue # segs) (v # vs) = v # render segs vs"
| "render (UserValue # segs) [] = []"

text \<open>
  A required segment is present in an input when the input has, at the place of the
  segment in the path form, the segment's name (in whatever casing) or, for a value, a
  non-empty text. An input misses a required segment when it has fewer segments than
  the resource requires, when one of the required segments is not present at its place,
  or when a required name occurs nowhere in the input.
\<close>

fun segmentPresent :: "segment \<Rightarrow> string \<Rightarrow> bool" where
  "segmentPresent (Fixed n) c = (foldCase c = foldCase n)"
| "segmentPresent UserValue c = (c \<noteq> [])"

fun nameAbsent :: "string list \<Rightarrow> segment \<Rightarrow> bool" where
  "nameAbsent comps (Fixed n) = (foldCase n \<notin> set (map foldCase comps))"
| "nameAbsent comps UserValue = False"

definition missingSegment :: "segment list \<Rightarrow> string \<Rightarrow> bool" where
  "missingSegment segs input =
     (let comps = tl (splitSlash input)
      in length comps < length segs \<or>
         list_ex (\<lambda>(s, c). \<not> segmentPresent s c) (zip segs comps) \<or>
         list_ex (nameAbsent comps) segs)"

definition validValue :: "string \<Rightarrow> bool" where
  "validValue v = (v \<noteq> [] \<and> CHR ''/'' \<notin> set v)"

section \<open>Properties of the enumeration parsers\<close>

lemmas enum_consts =
  AsyncOperationStatusFailed_def AsyncOperationStatusInProgress_def
  AsyncOperationStatusSucceeded_def PossibleValuesForAsyncOperationStatus_def
  LiveOutputResourceStateCreating_def LiveOutputResourceStateDeleting_def
  LiveOutputResourceStateRunning_def PossibleValuesForLiveOutputResourceState_def

lemmas lower_defs = ToLower_def isASCII_def toLowerByte_def asciiUpper_def asciiLower_def

lemma ToLower_async_consts:
  "ToLower u ''Failed'' = ''failed''"
  "ToLower u ''InProgress'' = ''inprogress''"
  "ToLower u ''Succeeded'' = ''succeeded''"
  by (simp_all add: lower_defs)

lemma ToLower_live_consts:
  "ToLower u ''Creating'' = ''creating''"
  "ToLower u ''Deleting'' = ''deleting''"
  "ToLower u ''Running'' = ''running''"
  by (simp_all add: lower_defs)

text \<open>
  Claim C10. \<open>parseAsyncOperationStatus\<close> and \<open>parseLiveOutputResourceState\<close> return a
  value and no error on every input, whatever the case tables of the library are. An
  input that matches one of the known constants case-insensitively, that is, whose
  lower-cased form by \<open>strings.ToLower\<close> equals the lower-cased form of the constant,
  is mapped to that constant; an input that matches none of them is returned unchanged.
\<close>

theorem parse_enum_total_canonical:
  "(\<exists>v. parseAsyncOperationStatus u input = (Some v, None)) \<and>
   (c \<in> set PossibleValuesForAsyncOperationStatus \<longrightarrow> ToLower u input = ToLower u c \<longrightarrow>
      parseAsyncOperationStatus u input = (Some c, None)) \<and>
   ((\<forall>k \<in> set PossibleValuesForAsyncOperationStatus. ToLower u input \<noteq> ToLower u k) \<longrightarrow>
      parseAsyncOperationStatus u input = (Some input, None)) \<and>
   (\<exists>v. parseLiveOutputResourceState u input = (Some v, None)) \<and>
   (d \<in> set PossibleValuesForLiveOutputResourceState \<longrightarrow> ToLower u input = ToLower u d \<longrightarrow>
      parseLiveOutputResourceState u input = (Some d, None)) \<and>
   ((\<forall>k \<in> set PossibleValuesForLiveOutputResourceState. ToLower u input \<noteq> ToLower u k) \<longrightarrow>
      parseLiveOutputResourceState u input = (Some input, None))"
proof -
  have a1: "\<exists>v. parseAsyncOperationStatus u input = (Some v, None)"
    by (simp add: parseAsyncOperationStatus_def Let_def split: option.split)
  have a2: "parseAsyncOperationStatus u input = (Some c, None)"
    if "c \<in> set PossibleValuesForAsyncOperationStatus" "ToLower u input = ToLower u c"
    using that
    by (auto simp: parseAsyncOperationStatus_def enum_consts ToLower_async_consts)
  have a3: "parseAsyncOperationStatus u input = (Some input, None)"
    if "\<forall>k \<in> set PossibleValuesForAsyncOperationStatus. ToLower u input \<noteq> ToLower u k"
    using that
    by (simp add: parseAsyncOperationStatus_def enum_consts ToLower_async_consts)
  have l1: "\<exists>v. parseLiveOutputResourceState u input = (Some v, None)"
    by (simp add: parseLiveOutputResourceState_def Let_def split: option.split)
  have l2: "parseLiveOutputResourceState u input = (Some d, None)"
    if "d \<in> set PossibleValuesForLiveOutputResourceState" "ToLower u input = ToLower u d"
    using that
    by (auto simp: parseLiveOutputResourceState_def enum_consts ToLower_live_consts)
  have l3: "parseLiveOutputResourceState u input = (Some input, None)"
    if "\<forall>k \<in> set PossibleValuesForLiveOutputResourceState. ToLower u input \<noteq> ToLower u k"
    using that
    by (simp add: parseLiveOutputResourceState_def enum_consts ToLower_live_consts)
  from a1 a2 a3 l1 l2 l3 show ?thesis by blast
qed

theorem parse_enum_total_canonical_witness:
  "parseAsyncOperationStatus sampleUnicodeLower ''inprogress'' = (Some ''InProgress'', None) \<and>
   parseAsyncOperationStatus sampleUnicodeLower ''INPROGRESS'' = (Some ''InProgress'', None) \<and>
   parseAsyncOperationStatus sampleUnicodeLower [CHR ''F'', CHR ''a'', CHR 0xC4, CHR 0xB0,
      CHR ''l'', CHR ''e'', CHR ''d''] = (Some ''Failed'', None) \<and>
   parseAsyncOperationStatus sampleUnicodeLower ''Paused'' = (Some ''Paused'', None) \<and>
   parseLiveOutputResourceState sampleUnicodeLower ''rUNNING'' = (Some ''Running'', None) \<and>
   parseLiveOutputResourceState sampleUnicodeLower ''Stopped'' = (Some ''Stopped'', None)"
proof -
  have m1: "''InProgress'' \<in> set PossibleValuesForAsyncOperationStatus"
    and m3: "''Failed'' \<in> set PossibleValuesForAsyncOperationStatus"
    by (simp_all add: enum_consts)
  have m2: "''Running'' \<in> set PossibleValuesForLiveOutputResourceState"
    by (simp add: enum_consts)
  have e1: "ToLower sampleUnicodeLower ''inprogress'' = ToLower sampleUnicodeLower ''InProgress''"
    by (simp add: lower_defs)
  have e2: "ToLower sampleUnicodeLower ''INPROGRESS'' = ToLower sampleUnicodeLower ''InProgress''"
    by (simp add: lower_defs)
  have e3: "ToLower sampleUnicodeLower ''rUNNING'' = ToLower sampleUnicodeLower ''Running''"
    by (simp add: lower_defs)
  have e4: "ToLower sampleUnicodeLower [CHR ''F'', CHR ''a'', CHR 0xC4, CHR 0xB0,
      CHR ''l'', CHR ''e'', CHR ''d''] = ToLower sampleUnicodeLower ''Failed''"
    by (simp add: lower_defs)
  have n1: "\<forall>k \<in> set PossibleValuesForAsyncOperationStatus.
              ToLower sampleUnicodeLower ''Paused'' \<noteq> ToLower sampleUnicodeLower k"
    by (simp add: enum_consts lower_defs)
  have n2: "\<forall>k \<in> set PossibleValuesForLiveOutputResourceState.
              ToLower sampleUnicodeLower ''Stopped'' \<noteq> ToLower sampleUnicodeLower k"
    by (simp add: enum_consts lower_defs)
  from parse_enum_total_canonical
         [of sampleUnicodeLower "''inprogress''" "''InProgress''" "''Running''"] m1 e1
  have r1: "parseAsyncOperationStatus sampleUnicodeLower ''inprogress'' =
              (Some ''InProgress'', None)" by blast
  from parse_enum_total_canonical
         [of sampleUnicodeLower "''INPROGRESS''" "''InProgress''" "''Running''"] m1 e2
  have r2: "parseAsyncOperationStatus sampleUnicodeLower ''INPROGRESS'' =
              (Some ''InProgress'', None)" by blast
  from parse_enum_total_canonical
         [of sampleUnicodeLower "[CHR ''F'', CHR ''a'', CHR 0xC4, CHR 0xB0,
      CHR ''l'', CHR ''e'', CHR ''d'']" "''Failed''" "''Running''"] m3 e4
  have r6: "parseAsyncOperationStatus sampleUnicodeLower [CHR ''F'', CHR ''a'', CHR 0xC4,
      CHR 0xB0, CHR ''l'', CHR ''e'', CHR ''d''] = (Some ''Failed'', None)" by blast
  from parse_enum_total_canonical
         [of sampleUnicodeLower "''Paused''" "''InProgress''" "''Running''"] n1
  have r3: "parseAsyncOperationStatus sampleUnicodeLower ''Paused'' = (Some ''Paused'', None)"
    by blast
  from parse_enum_total_canonical
         [of sampleUnicodeLower "''rUNNING''" "''InProgress''" "''Running''"] m2 e3
  have r4: "parseLiveOutputResourceState sampleUnicodeLower ''rUNNING'' =
              (Some ''Running'', None)" by blast
  from parse_enum_total_canonical
         [of sampleUnicodeLower "''Stopped''" "''InProgress''" "''Running''"] n2
  have r5: "parseLiveOutputResourceState sampleUnicodeLower ''Stopped'' =
              (Some ''Stopped'', None)" by blast
  from r1 r2 r6 r3 r4 r5 show ?thesis by (simp only: simp_thms)
qed

section \<open>Flatten after expand\<close>

lemma map_eq_single: "dom m = {k} \<Longrightarrow> m k = Some v \<Longrightarrow> m = [k \<mapsto> v]"
  by (auto simp: fun_eq_iff dom_def)

lemma map_eq_pair:
  "dom m = {k1, k2} \<Longrightarrow> m k1 = Some v1 \<Longrightarrow> m k2 = Some v2 \<Longrightarrow> m = [k1 \<mapsto> v1, k2 \<mapsto> v2]"
  by (auto simp: fun_eq_iff dom_def)

text \<open>
  Claim C2. A one-element configuration list of the block \<open>additional_capabilities\<close>,
  \<open>scale_in_policy\<close> or \<open>spot_restore_policy\<close> holds one map with exactly the fields
  of the block's schema, each of the field's type. Expanding such a list succeeds, and
  flattening the result gives the list back.
\<close>

theorem flatten_expand_stable:
  "(dom m = {''ultra_ssd_enabled''} \<and> m ''ultra_ssd_enabled'' = Some (VBool b) \<longrightarrow>
      (\<exists>p. ExpandVirtualMachineScaleSetAdditionalCapabilities [VMap m] = Inr p \<and>
           FlattenVirtualMachineScaleSetAdditionalCapabilities p = [VMap m])) \<and>
   (dom m = {''rule'', ''force_deletion_enabled''} \<and> m ''rule'' = Some (VStr r) \<and>
    m ''force_deletion_enabled'' = Some (VBool b) \<longrightarrow>
      (\<exists>p. ExpandVirtualMachineScaleSetScaleInPolicy [VMap m] = Inr p \<and>
           FlattenVirtualMachineScaleSetScaleInPolicy p = [VMap m])) \<and>
   (dom m = {''enabled'', ''timeout''} \<and> m ''enabled'' = Some (VBool b) \<and>
    m ''timeout'' = Some (VStr t) \<longrightarrow>
      (\<exists>p. ExpandVirtualMachineScaleSetSpotRestorePolicy [VMap m] = Inr p \<and>
           FlattenVirtualMachineScaleSetSpotRestorePolicy p = [VMap m]))"
proof (intro conjI impI)
  assume "dom m = {''ultra_ssd_enabled''} \<and> m ''ultra_ssd_enabled'' = Some (VBool b)"
  then have "m = [''ultra_ssd_enabled'' \<mapsto> VBool b]"
    by (simp add: map_eq_single)
  then show "\<exists>p. ExpandVirtualMachineScaleSetAdditionalCapabilities [VMap m] = Inr p \<and>
           FlattenVirtualMachineScaleSetAdditionalCapabilities p = [VMap m]"
    by (simp add: ExpandVirtualMachineScaleSetAdditionalCapabilities_def
        FlattenVirtualMachineScaleSetAdditionalCapabilities_def bindE_def first_def index_def)
next
  assume "dom m = {''rule'', ''force_deletion_enabled''} \<and> m ''rule'' = Some (VStr r) \<and>
    m ''force_deletion_enabled'' = Some (VBool b)"
  then have "m = [''rule'' \<mapsto> VStr r, ''force_deletion_enabled'' \<mapsto> VBool b]"
    by (simp add: map_eq_pair)
  then show "\<exists>p. ExpandVirtualMachineScaleSetScaleInPolicy [VMap m] = Inr p \<and>
           FlattenVirtualMachineScaleSetScaleInPolicy p = [VMap m]"
    by (simp add: ExpandVirtualMachineScaleSetScaleInPolicy_def
        FlattenVirtualMachineScaleSetScaleInPolicy_def bindE_def first_def index_def)
next
  assume "dom m = {''enabled'', ''timeout''} \<and> m ''enabled'' = Some (VBool b) \<and>
    m ''timeout'' = Some (VStr t)"
  then have "m = [''enabled'' \<mapsto> VBool b, ''timeout'' \<mapsto> VStr t]"
    by (simp add: map_eq_pair)
  then show "\<exists>p. ExpandVirtualMachineScaleSetSpotRestorePolicy [VMap m] = Inr p \<and>
           FlattenVirtualMachineScaleSetSpotRestorePolicy p = [VMap m]"
    by (simp add: ExpandVirtualMachineScaleSetSpotRestorePolicy_def
        FlattenVirtualMachineScaleSetSpotRestorePolicy_def bindE_def first_def index_def)
qed

theorem flatten_expand_stable_witness:
  "(\<exists>p. ExpandVirtualMachineScaleSetAdditionalCapabilities
           [VMap [''ultra_ssd_enabled'' \<mapsto> VBool True]] = Inr p \<and>
        FlattenVirtualMachineScaleSetAdditionalCapabilities p =
           [VMap [''ultra_ssd_enabled'' \<mapsto> VBool True]]) \<and>
   (\<exists>p. ExpandVirtualMachineScaleSetScaleInPolicy
           [VMap [''rule'' \<mapsto> VStr ''OldestVM'', ''force_deletion_enabled'' \<mapsto> VBool True]] = Inr p \<and>
        FlattenVirtualMachineScaleSetScaleInPolicy p =
           [VMap [''rule'' \<mapsto> VStr ''OldestVM'', ''force_deletion_enabled'' \<mapsto> VBool True]]) \<and>
   (\<exists>p. ExpandVirtualMachineScaleSetSpotRestorePolicy
           [VMap [''enabled'' \<mapsto> VBool True, ''timeout'' \<mapsto> VStr ''PT30M'']] = Inr p \<and>
        FlattenVirtualMachineScaleSetSpotRestorePolicy p =
           [VMap [''enabled'' \<mapsto> VBool True, ''timeout'' \<mapsto> VStr ''PT30M'']])"
proof -
  have d1: "dom [''ultra_ssd_enabled'' \<mapsto> VBool True] = {''ultra_ssd_enabled''}"
    by simp
  have d2: "dom [''rule'' \<mapsto> VStr ''OldestVM'', ''force_deletion_enabled'' \<mapsto> VBool True]
              = {''rule'', ''force_deletion_enabled''}"
    by auto
  have d3: "dom [''enabled'' \<mapsto> VBool True, ''timeout'' \<mapsto> VStr ''PT30M'']
              = {''enabled'', ''timeout''}"
    by auto
  from flatten_expand_stable
         [of "[''ultra_ssd_enabled'' \<mapsto> VBool True]" True "''OldestVM''" "''PT30M''"] d1
  have r1: "\<exists>p. ExpandVirtualMachineScaleSetAdditionalCapabilities
           [VMap [''ultra_ssd_enabled'' \<mapsto> VBool True]] = Inr p \<and>
        FlattenVirtualMachineScaleSetAdditionalCapabilities p =
           [VMap [''ultra_ssd_enabled'' \<mapsto> VBool True]]"
    by simp
  from flatten_expand_stable
         [of "[''rule'' \<mapsto> VStr ''OldestVM'', ''force_deletion_enabled'' \<mapsto> VBool True]"
             True "''OldestVM''" "''PT30M''"] d2
  have r2: "\<exists>p. ExpandVirtualMachineScaleSetScaleInPolicy
           [VMap [''rule'' \<mapsto> VStr ''OldestVM'', ''force_deletion_enabled'' \<mapsto> VBool True]] = Inr p \<and>
        FlattenVirtualMachineScaleSetScaleInPolicy p =
           [VMap [''rule'' \<mapsto> VStr ''OldestVM'', ''force_deletion_enabled'' \<mapsto> VBool True]]"
    by simp
  from flatten_expand_stable
         [of "[''enabled'' \<mapsto> VBool True, ''timeout'' \<mapsto> VStr ''PT30M'']"
             True "''OldestVM''" "''PT30M''"] d3
  have r3: "\<exists>p. ExpandVirtualMachineScaleSetSpotRestorePolicy
           [VMap [''enabled'' \<mapsto> VBool True, ''timeout'' \<mapsto> VStr ''PT30M'']] = Inr p \<and>
        FlattenVirtualMachineScaleSetSpotRestorePolicy p =
           [VMap [''enabled'' \<mapsto> VBool True, ''timeout'' \<mapsto> VStr ''PT30M'']]"
    by simp
  from r1 r2 r3 show ?thesis by blast
qed

section \<open>Flattening a nil pointer\<close>

text \<open>
  Claim C9 as stated does not hold of \<open>FlattenVirtualMachineScaleSetAutomaticRepairsPolicy\<close>:
  it tests \<open>input != nil\<close> before each field access, and for the nil pointer it returns
  a block of defaults, not the empty list.
\<close>

theorem flatten_nil_counterexample:
  "FlattenVirtualMachineScaleSetAutomaticRepairsPolicy None \<noteq> []"
  by (simp add: FlattenVirtualMachineScaleSetAutomaticRepairsPolicy_def)

text \<open>
  Claim C9, amended. Every exported flatten function of a pointer to a struct is total
  on the nil pointer. The eight with an early return for nil
  (\<open>FlattenVirtualMachineScaleSetAdditionalCapabilities\<close>, \<open>...ScaleInPolicy\<close>,
  \<open>...SpotRestorePolicy\<close>, \<open>...NetworkInterface\<close>, \<open>...DataDisk\<close>, \<open>...OSDisk\<close>,
  \<open>...AutomaticOSUpgradePolicy\<close>, \<open>...RollingUpgradePolicy\<close>) return the empty list
  for it; for the six that flatten one struct, nil is the only input with an empty
  result, and the data disks give an empty result for nil and for the empty list alone.
  The two that test the pointer before each field access
  (\<open>...ScheduledEventsProfile\<close>, \<open>...AutomaticRepairsPolicy\<close>) return one block of
  default values for nil, and one block for every input.
\<close>

theorem flatten_nil_results:
  "(FlattenVirtualMachineScaleSetAdditionalCapabilities ac = [] \<longleftrightarrow> ac = None) \<and>
   (FlattenVirtualMachineScaleSetScaleInPolicy sip = [] \<longleftrightarrow> sip = None) \<and>
   (FlattenVirtualMachineScaleSetSpotRestorePolicy srp = [] \<longleftrightarrow> srp = None) \<and>
   (FlattenVirtualMachineScaleSetOSDisk osd = [] \<longleftrightarrow> osd = None) \<and>
   (FlattenVirtualMachineScaleSetAutomaticOSUpgradePolicy aup = [] \<longleftrightarrow> aup = None) \<and>
   (FlattenVirtualMachineScaleSetRollingUpgradePolicy rup = [] \<longleftrightarrow> rup = None) \<and>
   (FlattenVirtualMachineScaleSetDataDisk dds = [] \<longleftrightarrow> dds = None \<or> dds = Some []) \<and>
   FlattenVirtualMachineScaleSetNetworkInterface h None = [] \<and>
   FlattenVirtualMachineScaleSetScheduledEventsProfile None =
     [VMap [''enabled'' \<mapsto> VBool False, ''timeout'' \<mapsto> VStr ''PT5M'']] \<and>
   FlattenVirtualMachineScaleSetAutomaticRepairsPolicy None =
     [VMap [''enabled'' \<mapsto> VBool False, ''grace_period'' \<mapsto> VStr ''PT30M'']] \<and>
   length (FlattenVirtualMachineScaleSetScheduledEventsProfile sep) = 1 \<and>
   length (FlattenVirtualMachineScaleSetAutomaticRepairsPolicy arp) = 1"
proof -
  have 1: "FlattenVirtualMachineScaleSetAdditionalCapabilities ac = [] \<longleftrightarrow> ac = None"
    by (simp add: FlattenVirtualMachineScaleSetAdditionalCapabilities_def split: option.split)
  have 2: "FlattenVirtualMachineScaleSetScaleInPolicy sip = [] \<longleftrightarrow> sip = None"
    by (simp add: FlattenVirtualMachineScaleSetScaleInPolicy_def split: option.split)
  have 3: "FlattenVirtualMachineScaleSetSpotRestorePolicy srp = [] \<longleftrightarrow> srp = None"
    by (simp add: FlattenVirtualMachineScaleSetSpotRestorePolicy_def split: option.split)
  have 4: "FlattenVirtualMachineScaleSetOSDisk osd = [] \<longleftrightarrow> osd = None"
    by (simp add: FlattenVirtualMachineScaleSetOSDisk_def Let_def split: option.split)
  have 5: "FlattenVirtualMachineScaleSetAutomaticOSUpgradePolicy aup = [] \<longleftrightarrow> aup = None"
    by (simp add: FlattenVirtualMachineScaleSetAutomaticOSUpgradePolicy_def split: option.split)
  have 6: "FlattenVirtualMachineScaleSetRollingUpgradePolicy rup = [] \<longleftrightarrow> rup = None"
    by (simp add: FlattenVirtualMachineScaleSetRollingUpgradePolicy_def split: option.split)
  have 7: "FlattenVirtualMachineScaleSetDataDisk dds = [] \<longleftrightarrow> dds = None \<or> dds = Some []"
    by (simp add: FlattenVirtualMachineScaleSetDataDisk_def split: option.split)
  have 8: "FlattenVirtualMachineScaleSetNetworkInterface h None = []"
    by (simp add: FlattenVirtualMachineScaleSetNetworkInterface_def)
  have 9: "FlattenVirtualMachineScaleSetScheduledEventsProfile None =
     [VMap [''enabled'' \<mapsto> VBool False, ''timeout'' \<mapsto> VStr ''PT5M'']]"
    by (simp add: FlattenVirtualMachineScaleSetScheduledEventsProfile_def)
  have 10: "FlattenVirtualMachineScaleSetAutomaticRepairsPolicy None =
     [VMap [''enabled'' \<mapsto> VBool False, ''grace_period'' \<mapsto> VStr ''PT30M'']]"
    by (simp add: FlattenVirtualMachineScaleSetAutomaticRepairsPolicy_def)
  have 11: "length (FlattenVirtualMachineScaleSetScheduledEventsProfile sep) = 1"
    by (simp add: FlattenVirtualMachineScaleSetScheduledEventsProfile_def Let_def)
  have 12: "length (FlattenVirtualMachineScaleSetAutomaticRepairsPolicy arp) = 1"
    by (simp add: FlattenVirtualMachineScaleSetAutomaticRepairsPolicy_def Let_def)
  from 1 2 3 4 5 6 7 8 9 10 11 12 show ?thesis by (simp only: simp_thms)
qed

theorem flatten_nil_results_witness:
  "FlattenVirtualMachineScaleSetAdditionalCapabilities None = [] \<and>
   FlattenVirtualMachineScaleSetAdditionalCapabilities (Some \<lparr>UltraSSDEnabled = Some True\<rparr>) \<noteq> [] \<and>
   FlattenVirtualMachineScaleSetDataDisk None = [] \<and>
   FlattenVirtualMachineScaleSetDataDisk (Some []) = [] \<and>
   FlattenVirtualMachineScaleSetOSDisk None = [] \<and>
   length (FlattenVirtualMachineScaleSetScheduledEventsProfile None) = 1"
proof -
  note t = flatten_nil_results
    [of None None None None None None None sampleHelpers None None]
  note t' = flatten_nil_results
    [of "Some \<lparr>UltraSSDEnabled = Some True\<rparr>" None None None None None "Some []"
        sampleHelpers None None]
  from t have a: "FlattenVirtualMachineScaleSetAdditionalCapabilities None = []"
    and b: "FlattenVirtualMachineScaleSetDataDisk None = []"
    and c: "FlattenVirtualMachineScaleSetOSDisk None = []"
    and d: "length (FlattenVirtualMachineScaleSetScheduledEventsProfile None) = 1"
    by simp_all
  from t' have e: "FlattenVirtualMachineScaleSetAdditionalCapabilities
                     (Some \<lparr>UltraSSDEnabled = Some True\<rparr>) \<noteq> []"
    and f: "FlattenVirtualMachineScaleSetDataDisk (Some []) = []"
    by simp_all
  from a b c d e f show ?thesis by (simp only: simp_thms not_False_eq_True)
qed

section \<open>The IPv6 primary check\<close>

lemma isStr_E: "isStr v \<Longrightarrow> \<exists>s. v = VStr s" by (cases v) auto
lemma isBool_E: "isBool v \<Longrightarrow> \<exists>s. v = VBool s" by (cases v) auto
lemma isInt_E: "isInt v \<Longrightarrow> \<exists>s. v = VInt s" by (cases v) auto
lemma isStrSet_E: "isStrSet v \<Longrightarrow> \<exists>s. v = VSet s" by (cases v) auto
lemma isIPTagList_E: "isIPTagList v \<Longrightarrow> \<exists>xs. v = VList xs \<and> list_all isIPTag xs" by (cases v) auto
lemma isPublicIPAddressList_E: "isPublicIPAddressList v \<Longrightarrow> \<exists>xs. v = VList xs \<and> list_all isPublicIPAddress xs" by (cases v) auto

lemma expandIPTags_ok: "list_all isIPTag xs \<Longrightarrow> \<exists>ts. expandIPTags xs = Inr ts"
proof (induction xs)
  case Nil
  then show ?case by simp
next
  case (Cons x xs)
  then obtain ts where ts: "expandIPTags xs = Inr ts" by auto
  from Cons.prems obtain m where m: "x = VMap m" by (cases x) auto
  with Cons.prems obtain a b where "index m ''tag'' = VStr a" "index m ''type'' = VStr b"
    by (auto dest!: isStr_E)
  with m ts show ?case by (simp add: bindE_def)
qed

lemma expandPublicIP_ok:
  assumes "isPublicIPAddress v"
  shows "\<exists>m c. v = VMap m \<and> expandVirtualMachineScaleSetPublicIPAddress m = Inr c"
proof -
  from assms obtain m where m: "v = VMap m" by (cases v) auto
  with assms obtain n d i tl ve p where f:
    "index m ''name'' = VStr n" "index m ''domain_name_label'' = VStr d"
    "index m ''idle_timeout_in_minutes'' = VInt i" "index m ''ip_tag'' = VList tl"
    "list_all isIPTag tl"
    "index m ''version'' = VStr ve" "index m ''public_ip_prefix_id'' = VStr p"
    by (auto dest!: isStr_E isInt_E isIPTagList_E)
  from expandIPTags_ok[OF f(5)] obtain ts where "expandIPTags tl = Inr ts" by blast
  with f m show ?thesis
    by (simp add: expandVirtualMachineScaleSetPublicIPAddress_def bindE_def)
qed

lemma expandPublicIPUpdate_ok:
  assumes "isPublicIPAddress v"
  shows "\<exists>m c. v = VMap m \<and> expandVirtualMachineScaleSetPublicIPAddressUpdate m = Inr c"
proof -
  from assms obtain m where m: "v = VMap m" by (cases v) auto
  with assms obtain n d i where f:
    "index m ''name'' = VStr n" "index m ''domain_name_label'' = VStr d"
    "index m ''idle_timeout_in_minutes'' = VInt i" 
    by (auto dest!: isStr_E isInt_E)
  with f m show ?thesis
    by (simp add: expandVirtualMachineScaleSetPublicIPAddressUpdate_def bindE_def)
qed

lemma expandIP_cases:
  assumes wt: "isIPConfiguration raw"
  shows "\<exists>p v. index raw ''primary'' = VBool p \<and> index raw ''version'' = VStr v \<and>
     (if p \<and> v = IPVersionIPvSix
      then expandVirtualMachineScaleSetIPConfiguration h raw = Inl IPv6PrimaryUnsupported
      else \<exists>c. expandVirtualMachineScaleSetIPConfiguration h raw = Inr c)"
proof -
  from wt obtain n p v sn a1 a2 a3 a4 xs where f:
    "index raw ''name'' = VStr n" "index raw ''primary'' = VBool p"
    "index raw ''version'' = VStr v" "index raw ''subnet_id'' = VStr sn"
    "index raw ''application_gateway_backend_address_pool_ids'' = VSet a1"
    "index raw ''application_security_group_ids'' = VSet a2"
    "index raw ''load_balancer_backend_address_pool_ids'' = VSet a3"
    "index raw ''load_balancer_inbound_nat_rules_ids'' = VSet a4"
    "index raw ''public_ip_address'' = VList xs" "list_all isPublicIPAddress xs"
    unfolding isIPConfiguration_def
    by (auto dest!: isStr_E isBool_E isStrSet_E isPublicIPAddressList_E)
  show ?thesis
  proof (cases xs)
    case Nil
    then show ?thesis
      unfolding expandVirtualMachineScaleSetIPConfiguration_def
      by (simp add: f bindE_def)
  next
    case (Cons x rest)
    with f(10) have "isPublicIPAddress x" by simp
    from expandPublicIP_ok[OF this] obtain m c where
      "x = VMap m" "expandVirtualMachineScaleSetPublicIPAddress m = Inr c" by blast
    with Cons show ?thesis
      unfolding expandVirtualMachineScaleSetIPConfiguration_def
      by (simp add: f bindE_def first_def)
  qed
qed

lemma expandIPUpdate_cases:
  assumes wt: "isIPConfiguration raw"
  shows "\<exists>p v. index raw ''primary'' = VBool p \<and> index raw ''version'' = VStr v \<and>
     (if p \<and> v = IPVersionIPvSix
      then expandVirtualMachineScaleSetIPConfigurationUpdate h raw = Inl IPv6PrimaryUnsupported
      else \<exists>c. expandVirtualMachineScaleSetIPConfigurationUpdate h raw = Inr c)"
proof -
  from wt obtain n p v sn a1 a2 a3 a4 xs where f:
    "index raw ''name'' = VStr n" "index raw ''primary'' = VBool p"
    "index raw ''version'' = VStr v" "index raw ''subnet_id'' = VStr sn"
    "index raw ''application_gateway_backend_address_pool_ids'' = VSet a1"
    "index raw ''application_security_group_ids'' = VSet a2"
    "index raw ''load_balancer_backend_address_pool_ids'' = VSet a3"
    "index raw ''load_balancer_inbound_nat_rules_ids'' = VSet a4"
    "index raw ''public_ip_address'' = VList xs" "list_all isPublicIPAddress xs"
    unfolding isIPConfiguration_def
    by (auto dest!: isStr_E isBool_E isStrSet_E isPublicIPAddressList_E)
  show ?thesis
  proof (cases xs)
    case Nil
    then show ?thesis
      unfolding expandVirtualMachineScaleSetIPConfigurationUpdate_def
      by (simp add: f bindE_def)
  next
    case (Cons x rest)
    with f(10) have "isPublicIPAddress x" by simp
    from expandPublicIPUpdate_ok[OF this] obtain m c where
      "x = VMap m" "expandVirtualMachineScaleSetPublicIPAddressUpdate m = Inr c" by blast
    with Cons show ?thesis
      unfolding expandVirtualMachineScaleSetIPConfigurationUpdate_def
      by (simp add: f bindE_def first_def)
  qed
qed

text \<open>
  Claim C5. For an \<open>ip_configuration\<close> map of the schema's shape:
  when \<open>primary\<close> is true and \<open>version\<close> is \<open>IPv6\<close>, both
  \<open>expandVirtualMachineScaleSetIPConfiguration\<close> and
  \<open>expandVirtualMachineScaleSetIPConfigurationUpdate\<close> return the error that an IPv6
  primary IP configuration is unsupported; when \<open>primary\<close> is false or \<open>version\<close>
  is not \<open>IPv6\<close>, both return a value and no error.
\<close>

theorem ipv6_primary_rejected:
  assumes "isIPConfiguration raw"
  shows "(index raw ''primary'' = VBool True \<and> index raw ''version'' = VStr IPVersionIPvSix \<longrightarrow>
            expandVirtualMachineScaleSetIPConfiguration h raw = Inl IPv6PrimaryUnsupported \<and>
            expandVirtualMachineScaleSetIPConfigurationUpdate h raw = Inl IPv6PrimaryUnsupported) \<and>
         (index raw ''primary'' = VBool False \<or> index raw ''version'' \<noteq> VStr IPVersionIPvSix \<longrightarrow>
            (\<exists>c. expandVirtualMachineScaleSetIPConfiguration h raw = Inr c) \<and>
            (\<exists>c. expandVirtualMachineScaleSetIPConfigurationUpdate h raw = Inr c))"
  using expandIP_cases[OF assms, of h] expandIPUpdate_cases[OF assms, of h]
  by (auto split: if_splits)

theorem ipv6_primary_rejected_witness:
  "isIPConfiguration (sampleIPConfiguration True ''IPv6'') \<and>
   expandVirtualMachineScaleSetIPConfiguration sampleHelpers
     (sampleIPConfiguration True ''IPv6'') = Inl IPv6PrimaryUnsupported \<and>
   expandVirtualMachineScaleSetIPConfigurationUpdate sampleHelpers
     (sampleIPConfiguration True ''IPv6'') = Inl IPv6PrimaryUnsupported \<and>
   isIPConfiguration (sampleIPConfiguration False ''IPv6'') \<and>
   (\<exists>c. expandVirtualMachineScaleSetIPConfiguration sampleHelpers
     (sampleIPConfiguration False ''IPv6'') = Inr c) \<and>
   (\<exists>c. expandVirtualMachineScaleSetIPConfigurationUpdate sampleHelpers
     (sampleIPConfiguration False ''IPv6'') = Inr c)"
proof -
  have w1: "isIPConfiguration (sampleIPConfiguration True ''IPv6'')"
    by (simp add: isIPConfiguration_def sampleIPConfiguration_def index_def)
  have w2: "isIPConfiguration (sampleIPConfiguration False ''IPv6'')"
    by (simp add: isIPConfiguration_def sampleIPConfiguration_def index_def)
  have p1: "index (sampleIPConfiguration True ''IPv6'') ''primary'' = VBool True"
    by (simp add: sampleIPConfiguration_def index_def)
  have v1: "index (sampleIPConfiguration True ''IPv6'') ''version'' = VStr IPVersionIPvSix"
    by (simp add: sampleIPConfiguration_def index_def IPVersionIPvSix_def)
  have p2: "index (sampleIPConfiguration False ''IPv6'') ''primary'' = VBool False"
    by (simp add: sampleIPConfiguration_def index_def)
  from ipv6_primary_rejected [OF w1] p1 v1 ipv6_primary_rejected [OF w2] p2 w1 w2
  show ?thesis by blast
qed

section \<open>The ultra SSD check of the data disks\<close>

lemma isOptionalInt_E: "isOptionalInt x \<Longrightarrow> x = None \<or> (\<exists>i. x = Some (VInt i))"
  by (cases x) (auto dest!: isInt_E)

lemma readOptionalInt_ok:
  "isOptionalInt (raw k) \<Longrightarrow>
   readOptionalInt raw k = Inr (if fieldInt (VMap raw) k > 0 then fieldInt (VMap raw) k else 0)"
  by (auto simp: readOptionalInt_def bindE_def dest!: isOptionalInt_E)

lemma expandDataDisk_cases:
  assumes "isDataDisk d"
  shows "if diskRejected u d
         then expandDataDisk u d = Inl IopsNeedsUltraSSD \<or> expandDataDisk u d = Inl MbpsNeedsUltraSSD
         else \<exists>disk. expandDataDisk u d = Inr disk \<and>
                dd_DiskIOPSReadWrite disk =
                  (if fieldInt d ''ultra_ssd_disk_iops_read_write'' > 0
                   then Some (fieldInt d ''ultra_ssd_disk_iops_read_write'') else None) \<and>
                dd_DiskMBpsReadWrite disk =
                  (if fieldInt d ''ultra_ssd_disk_mbps_read_write'' > 0
                   then Some (fieldInt d ''ultra_ssd_disk_mbps_read_write'') else None)"
proof -
  from assms obtain raw where d: "d = VMap raw" by (cases d) auto
  with assms obtain sat ca sz lun wa co id where f:
    "index raw ''storage_account_type'' = VStr sat" "index raw ''caching'' = VStr ca"
    "index raw ''disk_size_gb'' = VInt sz" "index raw ''lun'' = VInt lun"
    "index raw ''write_accelerator_enabled'' = VBool wa" "index raw ''create_option'' = VStr co"
    "index raw ''disk_encryption_set_id'' = VStr id"
    by (auto dest!: isStr_E isInt_E isBool_E)
  from assms d have nm: "isNil (index raw ''name'') \<or> (\<exists>n. index raw ''name'' = VStr n)"
    by (auto dest!: isStr_E)
  from assms d have oi: "isOptionalInt (raw ''ultra_ssd_disk_iops_read_write'')"
    and om: "isOptionalInt (raw ''ultra_ssd_disk_mbps_read_write'')" by auto
  from f(1) have sat: "fieldStr d ''storage_account_type'' = sat"
    unfolding d by (auto simp: index_def split: option.splits)
  from nm obtain nmv where nmv: "(if \<not> isNil (index raw ''name'')
            then bindE (asString (index raw ''name''))
                   (\<lambda>n. Inr (if n \<noteq> [] then Some n else None))
            else Inr None) = Inr nmv"
    by (auto simp: bindE_def)
  note ri = readOptionalInt_ok[of raw "''ultra_ssd_disk_iops_read_write''", OF oi]
  note rm = readOptionalInt_ok[of raw "''ultra_ssd_disk_mbps_read_write''", OF om]
  show ?thesis
    unfolding expandDataDisk_def diskRejected_def
    by (simp add: d f nmv ri rm sat[unfolded d] bindE_def del: fieldInt.simps fieldStr.simps)
qed

lemma expandDataDisks_cases:
  assumes "list_all isDataDisk input"
  shows "if list_ex (diskRejected u) input
         then expandDataDisks u input = Inl IopsNeedsUltraSSD \<or> expandDataDisks u input = Inl MbpsNeedsUltraSSD
         else \<exists>disks. expandDataDisks u input = Inr disks \<and>
                map dd_DiskIOPSReadWrite disks =
                  map (\<lambda>d. if fieldInt d ''ultra_ssd_disk_iops_read_write'' > 0
                        then Some (fieldInt d ''ultra_ssd_disk_iops_read_write'') else None) input \<and>
                map dd_DiskMBpsReadWrite disks =
                  map (\<lambda>d. if fieldInt d ''ultra_ssd_disk_mbps_read_write'' > 0
                        then Some (fieldInt d ''ultra_ssd_disk_mbps_read_write'') else None) input"
  using assms
proof (induction input)
  case Nil
  then show ?case by simp
next
  case (Cons d rest)
  then have wd: "isDataDisk d" and wr: "list_all isDataDisk rest" by auto
  note hd = expandDataDisk_cases[OF wd, of u]
  note tl = Cons.IH[OF wr]
  show ?case
  proof (cases "diskRejected u d")
    case True
    with hd show ?thesis by (auto simp: bindE_def)
  next
    case False
    with hd obtain disk where disk: "expandDataDisk u d = Inr disk"
      "dd_DiskIOPSReadWrite disk =
                  (if fieldInt d ''ultra_ssd_disk_iops_read_write'' > 0
                   then Some (fieldInt d ''ultra_ssd_disk_iops_read_write'') else None)"
      "dd_DiskMBpsReadWrite disk =
                  (if fieldInt d ''ultra_ssd_disk_mbps_read_write'' > 0
                   then Some (fieldInt d ''ultra_ssd_disk_mbps_read_write'') else None)"
      by auto
    show ?thesis
    proof (cases "list_ex (diskRejected u) rest")
      case True
      with tl False disk(1) show ?thesis by (auto simp: bindE_def)
    next
      case nr: False
      with tl obtain disks where "expandDataDisks u rest = Inr disks"
        "map dd_DiskIOPSReadWrite disks =
                  map (\<lambda>d. if fieldInt d ''ultra_ssd_disk_iops_read_write'' > 0
                        then Some (fieldInt d ''ultra_ssd_disk_iops_read_write'') else None) rest"
        "map dd_DiskMBpsReadWrite disks =
                  map (\<lambda>d. if fieldInt d ''ultra_ssd_disk_mbps_read_write'' > 0
                        then Some (fieldInt d ''ultra_ssd_disk_mbps_read_write'') else None) rest"
        by auto
      with False nr disk show ?thesis by (simp add: bindE_def)
    qed
  qed
qed

text \<open>
  Claim C6. For a list of \<open>data_disk\<close> maps of the schema's shape,
  \<open>ExpandVirtualMachineScaleSetDataDisk\<close> returns an error exactly when some disk has
  \<open>ultra_ssd_disk_iops_read_write > 0\<close> or \<open>ultra_ssd_disk_mbps_read_write > 0\<close>
  while \<open>ultraSSDEnabled\<close> is false and the disk's \<open>storage_account_type\<close> is not
  \<open>PremiumV2_LRS\<close>. Otherwise it returns one expanded disk per input disk, whose
  \<open>DiskIOPSReadWrite\<close> and \<open>DiskMBpsReadWrite\<close> are set exactly when the
  corresponding input value is greater than zero, and then to that value.
\<close>

theorem data_disk_error_iff:
  assumes "list_all isDataDisk input"
  shows "((\<exists>e. ExpandVirtualMachineScaleSetDataDisk input u = Inl e) \<longleftrightarrow>
            (\<exists>d \<in> set input. diskRejected u d)) \<and>
         ((\<forall>d \<in> set input. \<not> diskRejected u d) \<longrightarrow>
            (\<exists>disks. ExpandVirtualMachineScaleSetDataDisk input u = Inr (Some disks) \<and>
               map dd_DiskIOPSReadWrite disks =
                 map (\<lambda>d. if fieldInt d ''ultra_ssd_disk_iops_read_write'' > 0
                       then Some (fieldInt d ''ultra_ssd_disk_iops_read_write'') else None) input \<and>
               map dd_DiskMBpsReadWrite disks =
                 map (\<lambda>d. if fieldInt d ''ultra_ssd_disk_mbps_read_write'' > 0
                       then Some (fieldInt d ''ultra_ssd_disk_mbps_read_write'') else None) input))"
proof (cases "list_ex (diskRejected u) input")
  case True
  with expandDataDisks_cases[OF assms, of u]
  have "expandDataDisks u input = Inl IopsNeedsUltraSSD \<or> expandDataDisks u input = Inl MbpsNeedsUltraSSD"
    by simp
  moreover from True have "\<exists>d \<in> set input. diskRejected u d" by (simp add: list_ex_iff)
  ultimately show ?thesis
    by (auto simp: ExpandVirtualMachineScaleSetDataDisk_def bindE_def)
next
  case False
  with expandDataDisks_cases[OF assms, of u] obtain disks where
    "expandDataDisks u input = Inr disks"
    "map dd_DiskIOPSReadWrite disks =
                 map (\<lambda>d. if fieldInt d ''ultra_ssd_disk_iops_read_write'' > 0
                       then Some (fieldInt d ''ultra_ssd_disk_iops_read_write'') else None) input"
    "map dd_DiskMBpsReadWrite disks =
                 map (\<lambda>d. if fieldInt d ''ultra_ssd_disk_mbps_read_write'' > 0
                       then Some (fieldInt d ''ultra_ssd_disk_mbps_read_write'') else None) input"
    by auto
  moreover from False have "\<forall>d \<in> set input. \<not> diskRejected u d" by (simp add: list_ex_iff)
  ultimately show ?thesis
    by (simp add: ExpandVirtualMachineScaleSetDataDisk_def bindE_def)
qed

theorem data_disk_error_iff_witness:
  "list_all isDataDisk [sampleDataDisk ''PremiumV2_LRS'' 0 0, sampleDataDisk ''Premium_LRS'' 500 0] \<and>
   (\<exists>e. ExpandVirtualMachineScaleSetDataDisk
           [sampleDataDisk ''PremiumV2_LRS'' 0 0, sampleDataDisk ''Premium_LRS'' 500 0] False = Inl e) \<and>
   list_all isDataDisk [sampleDataDisk ''PremiumV2_LRS'' 500 0, sampleDataDisk ''Premium_LRS'' 0 0] \<and>
   (\<exists>disks. ExpandVirtualMachineScaleSetDataDisk
           [sampleDataDisk ''PremiumV2_LRS'' 500 0, sampleDataDisk ''Premium_LRS'' 0 0] False
             = Inr (Some disks) \<and>
      map dd_DiskIOPSReadWrite disks = [Some 500, None] \<and>
      map dd_DiskMBpsReadWrite disks = [None, None])"
proof -
  have w1: "list_all isDataDisk
              [sampleDataDisk ''PremiumV2_LRS'' 0 0, sampleDataDisk ''Premium_LRS'' 500 0]"
    by (simp add: sampleDataDisk_def index_def)
  have w2: "list_all isDataDisk
              [sampleDataDisk ''PremiumV2_LRS'' 500 0, sampleDataDisk ''Premium_LRS'' 0 0]"
    by (simp add: sampleDataDisk_def index_def)
  have r1: "\<exists>d \<in> set [sampleDataDisk ''PremiumV2_LRS'' 0 0, sampleDataDisk ''Premium_LRS'' 500 0].
              diskRejected False d"
    by (simp add: sampleDataDisk_def diskRejected_def StorageAccountTypesPremiumVTwoLRS_def)
  have r2: "\<forall>d \<in> set [sampleDataDisk ''PremiumV2_LRS'' 500 0, sampleDataDisk ''Premium_LRS'' 0 0].
              \<not> diskRejected False d"
    by (simp add: sampleDataDisk_def diskRejected_def StorageAccountTypesPremiumVTwoLRS_def)
  from data_disk_error_iff [OF w1, of False] r1
  have e1: "\<exists>e. ExpandVirtualMachineScaleSetDataDisk
           [sampleDataDisk ''PremiumV2_LRS'' 0 0, sampleDataDisk ''Premium_LRS'' 500 0] False = Inl e"
    by blast
  from data_disk_error_iff [OF w2, of False] r2
  obtain disks where d: "ExpandVirtualMachineScaleSetDataDisk
           [sampleDataDisk ''PremiumV2_LRS'' 500 0, sampleDataDisk ''Premium_LRS'' 0 0] False
             = Inr (Some disks)"
     "map dd_DiskIOPSReadWrite disks =
        map (\<lambda>d. if fieldInt d ''ultra_ssd_disk_iops_read_write'' > 0
              then Some (fieldInt d ''ultra_ssd_disk_iops_read_write'') else None)
          [sampleDataDisk ''PremiumV2_LRS'' 500 0, sampleDataDisk ''Premium_LRS'' 0 0]"
     "map dd_DiskMBpsReadWrite disks =
        map (\<lambda>d. if fieldInt d ''ultra_ssd_disk_mbps_read_write'' > 0
              then Some (fieldInt d ''ultra_ssd_disk_mbps_read_write'') else None)
          [sampleDataDisk ''PremiumV2_LRS'' 500 0, sampleDataDisk ''Premium_LRS'' 0 0]"
    by blast
  from d(2) have i: "map dd_DiskIOPSReadWrite disks = [Some 500, None]"
    by (simp add: sampleDataDisk_def)
  from d(3) have m: "map dd_DiskMBpsReadWrite disks = [None, None]"
    by (simp add: sampleDataDisk_def)
  have e2: "\<exists>disks. ExpandVirtualMachineScaleSetDataDisk
           [sampleDataDisk ''PremiumV2_LRS'' 500 0, sampleDataDisk ''Premium_LRS'' 0 0] False
             = Inr (Some disks) \<and>
      map dd_DiskIOPSReadWrite disks = [Some 500, None] \<and>
      map dd_DiskMBpsReadWrite disks = [None, None]"
    by (rule exI[of _ disks]) (simp only: d(1) i m simp_thms)
  from w1 w2 e1 e2 show ?thesis by (simp only: simp_thms)
qed

section \<open>Protected settings of the extensions\<close>

lemma isNil_iff: "isNil v \<longleftrightarrow> v = VNil"
  by (cases v) auto

lemma index_VStr_iff: "index m k = VStr s \<longleftrightarrow> m k = Some (VStr s)"
  by (simp add: index_def split: option.splits)

lemma extensionsFromStateOf_lookup:
  "extensionsFromStateOf exts acc = Inr fs \<Longrightarrow>
   fs name = (case storedUnder exts name of Some m \<Rightarrow> Some m | None \<Rightarrow> acc name)"
proof (induction exts arbitrary: acc)
  case Nil
  then show ?case by simp
next
  case (Cons ext rest)
  show ?case
  proof (cases "isNil ext")
    case True
    with Cons.prems have "extensionsFromStateOf rest acc = Inr fs" by simp
    from Cons.IH[OF this] True show ?thesis by (simp add: isNil_iff split: option.splits)
  next
    case False
    with Cons.prems obtain m where m: "ext = VMap m"
      by (cases ext) (auto simp: bindE_def)
    with False Cons.prems obtain n where n: "index m ''name'' = VStr n"
      and r: "extensionsFromStateOf rest (acc(n \<mapsto> m)) = Inr fs"
      by (cases "index m ''name''") (auto simp: bindE_def)
    from n have n': "m ''name'' = Some (VStr n)" by (simp add: index_VStr_iff)
    from Cons.IH[OF r] m n' show ?thesis by (auto split: option.splits)
  qed
qed

lemma readExtensionsFromState_lookup:
  assumes "readExtensionsFromState d = Inr fs"
  shows "fs name = storedUnder (stateExtensions d) name"
proof (cases "d ''extension''")
  case (Pair extSet ok)
  show ?thesis
  proof (cases "ok \<and> \<not> isNil extSet")
    case True
    with assms Pair obtain xs where xs: "extSet = VSet xs"
      and r: "extensionsFromStateOf xs Map.empty = Inr fs"
      by (cases extSet) (auto simp: readExtensionsFromState_def bindE_def)
    from extensionsFromStateOf_lookup[OF r, of name] Pair xs True show ?thesis
      by (simp add: stateExtensions_def split: option.splits)
  next
    case False
    with assms Pair have "fs = Map.empty" by (auto simp: readExtensionsFromState_def)
    moreover from False Pair have "stateExtensions d = []"
      by (cases extSet) (auto simp: stateExtensions_def)
    ultimately show ?thesis by simp
  qed
qed

lemma protectedSettingsFromState_stored:
  assumes "\<And>n. fs n = storedUnder exts n" "protectedSettingsFromState fs name = Inr s"
  shows "s = storedProtectedSettings exts name"
proof (cases "storedUnder exts name")
  case None
  with assms show ?thesis
    by (simp add: protectedSettingsFromState_def storedProtectedSettings_def)
next
  case (Some m)
  show ?thesis
  proof (cases "m ''protected_settings''")
    case None
    with Some assms show ?thesis
      by (simp add: protectedSettingsFromState_def storedProtectedSettings_def)
  next
    case (Some v)
    with \<open>storedUnder exts name = Some m\<close> assms show ?thesis
      by (cases v) (auto simp: protectedSettingsFromState_def storedProtectedSettings_def bindE_def)
  qed
qed

lemma flattenExtension_protected:
  assumes "flattenExtension h fs v = Inr m"
  shows "\<exists>s. protectedSettingsFromState fs (pointerFrom (ext_Name v)) = Inr s \<and>
             m ''protected_settings'' = Some (VStr s)"
  using assms
  by (auto simp: flattenExtension_def Let_def bindE_def split: sum.splits)

lemma flattenExtensionList_protected:
  "flattenExtensionList h fs exts = Inr ms \<Longrightarrow>
   list_all2 (\<lambda>v m. \<exists>s. protectedSettingsFromState fs (pointerFrom (ext_Name v)) = Inr s \<and>
                        m ''protected_settings'' = Some (VStr s)) exts ms"
proof (induction exts arbitrary: ms)
  case Nil
  then show ?case by simp
next
  case (Cons v rest)
  then obtain m ms' where m: "flattenExtension h fs v = Inr m"
    and r: "flattenExtensionList h fs rest = Inr ms'" and ms: "ms = m # ms'"
    by (auto simp: bindE_def split: sum.splits)
  from flattenExtension_protected[OF m] Cons.IH[OF r] ms show ?case by simp
qed

lemma flattenExtension_overwrite:
  "flattenExtension h fs
     (v\<lparr>ext_Properties := map_option (\<lambda>p. p\<lparr>ep_ProtectedSettings := x\<rparr>) (ext_Properties v)\<rparr>) =
   flattenExtension h fs v"
  by (cases "ext_Properties v") (simp_all add: flattenExtension_def)

lemma flattenExtensionList_overwrite:
  "flattenExtensionList h fs
     (map (\<lambda>v. v\<lparr>ext_Properties :=
                  map_option (\<lambda>p. p\<lparr>ep_ProtectedSettings := x\<rparr>) (ext_Properties v)\<rparr>) exts) =
   flattenExtensionList h fs exts"
  by (induction exts) (simp_all add: flattenExtension_overwrite)

lemma flatten_overwrite:
  assumes "prof_Extensions profile = Some extensions"
  shows "flattenVirtualMachineScaleSetExtensions h
      (Some (profile\<lparr>prof_Extensions := Some
         (map (\<lambda>v. v\<lparr>ext_Properties :=
                  map_option (\<lambda>p. p\<lparr>ep_ProtectedSettings := x\<rparr>) (ext_Properties v)\<rparr>)
            extensions)\<rparr>)) d =
    flattenVirtualMachineScaleSetExtensions h (Some profile) d"
  using assms
  by (simp add: flattenVirtualMachineScaleSetExtensions_def flattenExtensionList_overwrite)

lemma extensionsFromStateOf_ok:
  "list_all isStateExtension xs \<Longrightarrow> \<forall>n m. acc n = Some m \<longrightarrow> protectedSettingsTyped m \<Longrightarrow>
   \<exists>fs. extensionsFromStateOf xs acc = Inr fs \<and> (\<forall>n m. fs n = Some m \<longrightarrow> protectedSettingsTyped m)"
proof (induction xs arbitrary: acc)
  case Nil
  then show ?case by auto
next
  case (Cons x xs)
  from Cons.prems(1) have wx: "isStateExtension x" and wr: "list_all isStateExtension xs"
    by simp_all
  show ?case
  proof (cases "isNil x")
    case True
    with Cons.IH[OF wr Cons.prems(2)] show ?thesis by simp
  next
    case False
    with wx obtain m where m: "x = VMap m" by (cases x) auto
    with wx obtain n where n: "index m ''name'' = VStr n" and t: "protectedSettingsTyped m"
      by (auto dest!: isStr_E)
    have "\<forall>k j. (acc(n \<mapsto> m)) k = Some j \<longrightarrow> protectedSettingsTyped j"
      using t Cons.prems(2) by (auto split: if_splits)
    from Cons.IH[OF wr this] obtain fs where
      "extensionsFromStateOf xs (acc(n \<mapsto> m)) = Inr fs"
      "\<forall>k j. fs k = Some j \<longrightarrow> protectedSettingsTyped j" by blast
    with m n show ?thesis by (simp add: bindE_def)
  qed
qed

lemma readExtensionsFromState_ok:
  assumes "isExtensionState d"
  shows "\<exists>fs. readExtensionsFromState d = Inr fs \<and>
              (\<forall>n m. fs n = Some m \<longrightarrow> protectedSettingsTyped m)"
proof (cases "d ''extension''")
  case (Pair extSet ok)
  show ?thesis
  proof (cases "ok \<and> \<not> isNil extSet")
    case True
    with assms Pair obtain xs where xs: "extSet = VSet xs" and w: "list_all isStateExtension xs"
      by (cases extSet) (auto simp: isExtensionState_def)
    have "\<forall>n m. (Map.empty :: string \<Rightarrow> cfgmap option) n = Some m \<longrightarrow>
            protectedSettingsTyped m" by simp
    from extensionsFromStateOf_ok[OF w this] Pair True xs show ?thesis
      by (simp add: readExtensionsFromState_def bindE_def)
  next
    case False
    with Pair show ?thesis by (auto simp: readExtensionsFromState_def)
  qed
qed

lemma protectedSettingsFromState_ok:
  assumes "\<forall>n m. fs n = Some m \<longrightarrow> protectedSettingsTyped m"
  shows "\<exists>s. protectedSettingsFromState fs name = Inr s"
proof (cases "fs name")
  case None
  then show ?thesis by (simp add: protectedSettingsFromState_def)
next
  case (Some m)
  with assms have t: "protectedSettingsTyped m" by blast
  show ?thesis
  proof (cases "m ''protected_settings''")
    case None
    with Some show ?thesis by (simp add: protectedSettingsFromState_def)
  next
    case (Some v)
    with t obtain s where "v = VStr s"
      by (auto simp: protectedSettingsTyped_def dest!: isStr_E)
    with Some \<open>fs name = Some m\<close> show ?thesis
      by (simp add: protectedSettingsFromState_def bindE_def)
  qed
qed

lemma flattenExtension_ok:
  assumes "\<forall>n m. fs n = Some m \<longrightarrow> protectedSettingsTyped m" "settingsSerialise h v"
  shows "\<exists>m. flattenExtension h fs v = Inr m"
proof -
  from assms(2) obtain es where es:
    "(case ext_Properties v of
        None \<Rightarrow> Inr []
      | Some p \<Rightarrow>
          (case ep_Settings p of
             Some (VMap settings) \<Rightarrow> FlattenJsonToString h settings
           | _ \<Rightarrow> Inr [])) = Inr es"
    by (auto simp: settingsSerialise_def split: option.splits val.splits sum.splits)
  from protectedSettingsFromState_ok[OF assms(1)] obtain s where
    s: "protectedSettingsFromState fs (pointerFrom (ext_Name v)) = Inr s" by blast
  show ?thesis
    unfolding flattenExtension_def Let_def es s by (simp add: bindE_def)
qed

lemma flattenExtensionList_ok:
  assumes "\<forall>n m. fs n = Some m \<longrightarrow> protectedSettingsTyped m"
  shows "list_all (settingsSerialise h) exts \<Longrightarrow> \<exists>ms. flattenExtensionList h fs exts = Inr ms"
proof (induction exts)
  case Nil
  then show ?case by simp
next
  case (Cons v rest)
  then obtain ms where ms: "flattenExtensionList h fs rest = Inr ms" by auto
  from Cons.prems have "settingsSerialise h v" by simp
  from flattenExtension_ok[OF assms this] obtain m where "flattenExtension h fs v = Inr m"
    by blast
  with ms show ?case by (simp add: bindE_def)
qed

text \<open>
  Claim C7. For a response with extensions, a prior state of the schema's shape and
  settings that the JSON helper can serialise, \<open>flattenVirtualMachineScaleSetExtensions\<close>
  returns a result. Whenever it returns a result, the result has one entry per extension
  of the response, and the \<open>protected_settings\<close> of each entry is the value the prior
  state holds under the extension's name: the stored string when that is neither empty
  nor \<open>{}\<close>, and the empty string otherwise (when the state holds no block of that name,
  no such field, the empty string or \<open>{}\<close>). The \<open>ProtectedSettings\<close> of the response
  are not read: overwriting them in every extension of the response with any value
  leaves the result as it is.
\<close>

theorem protected_settings_from_state:
  assumes "prof_Extensions profile = Some extensions"
  shows "(isExtensionState d \<and> list_all (settingsSerialise h) extensions \<longrightarrow>
            (\<exists>r. flattenVirtualMachineScaleSetExtensions h (Some profile) d = Inr r)) \<and>
         (flattenVirtualMachineScaleSetExtensions h (Some profile) d = Inr result \<longrightarrow>
            length result = length extensions \<and>
            (\<forall>i < length extensions.
               (result ! i) ''protected_settings'' =
                 Some (VStr (storedProtectedSettings (stateExtensions d)
                               (pointerFrom (ext_Name (extensions ! i)))))) \<and>
            (\<forall>x. flattenVirtualMachineScaleSetExtensions h
                   (Some (profile\<lparr>prof_Extensions := Some
                      (map (\<lambda>v. v\<lparr>ext_Properties :=
                               map_option (\<lambda>p. p\<lparr>ep_ProtectedSettings := x\<rparr>) (ext_Properties v)\<rparr>)
                         extensions)\<rparr>)) d = Inr result))"
proof (intro conjI impI)
  assume w: "isExtensionState d \<and> list_all (settingsSerialise h) extensions"
  from readExtensionsFromState_ok[of d] w obtain fs where
    fs: "readExtensionsFromState d = Inr fs"
    and t: "\<forall>n m. fs n = Some m \<longrightarrow> protectedSettingsTyped m" by blast
  from flattenExtensionList_ok[OF t, of h extensions] w obtain ms where
    "flattenExtensionList h fs extensions = Inr ms" by blast
  with fs assms show "\<exists>r. flattenVirtualMachineScaleSetExtensions h (Some profile) d = Inr r"
    by (simp add: flattenVirtualMachineScaleSetExtensions_def bindE_def)
next
  assume res: "flattenVirtualMachineScaleSetExtensions h (Some profile) d = Inr result"
  with assms obtain fs where fs: "readExtensionsFromState d = Inr fs"
    and r: "flattenExtensionList h fs extensions = Inr result"
    by (auto simp: flattenVirtualMachineScaleSetExtensions_def bindE_def split: sum.splits)
  note l = flattenExtensionList_protected[OF r]
  have st: "\<And>n. fs n = storedUnder (stateExtensions d) n"
    by (rule readExtensionsFromState_lookup[OF fs])
  from l show len: "length result = length extensions"
    by (simp add: list_all2_lengthD)
  show "\<forall>i < length extensions.
               (result ! i) ''protected_settings'' =
                 Some (VStr (storedProtectedSettings (stateExtensions d)
                               (pointerFrom (ext_Name (extensions ! i)))))"
  proof (intro allI impI)
    fix i assume i: "i < length extensions"
    from list_all2_nthD[OF l i] obtain s where
      s: "protectedSettingsFromState fs (pointerFrom (ext_Name (extensions ! i))) = Inr s"
      and m: "(result ! i) ''protected_settings'' = Some (VStr s)" by blast
    from protectedSettingsFromState_stored[of fs "stateExtensions d", OF st s] m
    show "(result ! i) ''protected_settings'' =
                 Some (VStr (storedProtectedSettings (stateExtensions d)
                               (pointerFrom (ext_Name (extensions ! i)))))" by simp
  qed
  show "\<forall>x. flattenVirtualMachineScaleSetExtensions h
                   (Some (profile\<lparr>prof_Extensions := Some
                      (map (\<lambda>v. v\<lparr>ext_Properties :=
                               map_option (\<lambda>p. p\<lparr>ep_ProtectedSettings := x\<rparr>) (ext_Properties v)\<rparr>)
                         extensions)\<rparr>)) d = Inr result"
    using flatten_overwrite[OF assms, of h _ d] res by simp
qed

theorem protected_settings_from_state_witness:
  "isExtensionState sampleState \<and>
   (\<exists>result. flattenVirtualMachineScaleSetExtensions sampleHelpers
               (Some sampleExtensionProfile) sampleState = Inr result \<and>
            length result = 4 \<and>
            (result ! 0) ''protected_settings'' = Some (VStr ''{secret}'') \<and>
            (result ! 1) ''protected_settings'' = Some (VStr []) \<and>
            (result ! 2) ''protected_settings'' = Some (VStr []) \<and>
            (result ! 3) ''protected_settings'' = Some (VStr []))"
proof -
  have p: "prof_Extensions sampleExtensionProfile = Some (the (prof_Extensions sampleExtensionProfile))"
    by (simp add: sampleExtensionProfile_def)
  have w1: "isExtensionState sampleState"
    by (simp add: isExtensionState_def sampleState_def sampleExtensionBlock_def index_def
        protectedSettingsTyped_def)
  have w2: "list_all (settingsSerialise sampleHelpers) (the (prof_Extensions sampleExtensionProfile))"
    by (simp add: sampleExtensionProfile_def settingsSerialise_def)
  note t = protected_settings_from_state [OF p, of sampleState sampleHelpers]
  from t w1 w2 obtain result where r: "flattenVirtualMachineScaleSetExtensions sampleHelpers
               (Some sampleExtensionProfile) sampleState = Inr result" by blast
  have len: "length (the (prof_Extensions sampleExtensionProfile)) = 4"
    by (simp add: sampleExtensionProfile_def)
  have st: "stateExtensions sampleState =
              [VMap (sampleExtensionBlock ''first'' [] ''{secret}''),
               VMap (sampleExtensionBlock ''second'' [] ''{}''),
               VMap (sampleExtensionBlock ''third'' [] [])]"
    by (simp add: stateExtensions_def sampleState_def)
  have s0: "storedProtectedSettings (stateExtensions sampleState)
              (pointerFrom (ext_Name (the (prof_Extensions sampleExtensionProfile) ! 0))) = ''{secret}''"
    by (simp add: st storedProtectedSettings_def sampleExtensionProfile_def pointerFrom_def
        sampleExtensionBlock_def)
  have s1: "storedProtectedSettings (stateExtensions sampleState)
              (pointerFrom (ext_Name (the (prof_Extensions sampleExtensionProfile) ! 1))) = []"
    by (simp add: st storedProtectedSettings_def sampleExtensionProfile_def pointerFrom_def
        sampleExtensionBlock_def)
  have s2: "storedProtectedSettings (stateExtensions sampleState)
              (pointerFrom (ext_Name (the (prof_Extensions sampleExtensionProfile) ! 2))) = []"
    by (simp add: st storedProtectedSettings_def sampleExtensionProfile_def pointerFrom_def
        sampleExtensionBlock_def)
  have s3: "storedProtectedSettings (stateExtensions sampleState)
              (pointerFrom (ext_Name (the (prof_Extensions sampleExtensionProfile) ! 3))) = []"
    by (simp add: st storedProtectedSettings_def sampleExtensionProfile_def pointerFrom_def
        sampleExtensionBlock_def)
  note t' = protected_settings_from_state [OF p, of sampleState sampleHelpers result]
  from t' r len have l: "length result = 4" by simp
  from t' r len have "(result ! 0) ''protected_settings'' =
      Some (VStr (storedProtectedSettings (stateExtensions sampleState)
              (pointerFrom (ext_Name (the (prof_Extensions sampleExtensionProfile) ! 0)))))"
    by simp
  with s0 have r0: "(result ! 0) ''protected_settings'' = Some (VStr ''{secret}'')" by simp
  from t' r len have "(result ! 1) ''protected_settings'' =
      Some (VStr (storedProtectedSettings (stateExtensions sampleState)
              (pointerFrom (ext_Name (the (prof_Extensions sampleExtensionProfile) ! 1)))))"
    by simp
  with s1 have r1: "(result ! 1) ''protected_settings'' = Some (VStr [])" by simp
  from t' r len have "(result ! 2) ''protected_settings'' =
      Some (VStr (storedProtectedSettings (stateExtensions sampleState)
              (pointerFrom (ext_Name (the (prof_Extensions sampleExtensionProfile) ! 2)))))"
    by simp
  with s2 have r2: "(result ! 2) ''protected_settings'' = Some (VStr [])" by simp
  from t' r len have "(result ! 3) ''protected_settings'' =
      Some (VStr (storedProtectedSettings (stateExtensions sampleState)
              (pointerFrom (ext_Name (the (prof_Extensions sampleExtensionProfile) ! 3)))))"
    by simp
  with s3 have r3: "(result ! 3) ''protected_settings'' = Some (VStr [])" by simp
  have "\<exists>result. flattenVirtualMachineScaleSetExtensions sampleHelpers
               (Some sampleExtensionProfile) sampleState = Inr result \<and>
            length result = 4 \<and>
            (result ! 0) ''protected_settings'' = Some (VStr ''{secret}'') \<and>
            (result ! 1) ''protected_settings'' = Some (VStr []) \<and>
            (result ! 2) ''protected_settings'' = Some (VStr []) \<and>
            (result ! 3) ''protected_settings'' = Some (VStr [])"
    by (rule exI[of _ result]) (simp only: r l r0 r1 r2 r3 simp_thms)
  with w1 show ?thesis by (simp only: simp_thms)
qed

section \<open>The hash of an extension block\<close>

lemma index_upd_other: "k \<noteq> k' \<Longrightarrow> index (m(k \<mapsto> v)) k' = index m k'"
  by (simp add: index_def)

lemma index_upd_same: "index (m(k \<mapsto> v)) k = v"
  by (simp add: index_def)

lemma bindE_Inr: "bindE (Inr x) f = f x"
  by (simp add: bindE_def)

text \<open>
  Claim C8. Two extension blocks that differ only in the text of \<open>settings\<close>, or only
  in the text of \<open>protected_settings\<close>, where both texts are non-empty and parse to
  the same JSON object, have the same \<open>virtualMachineScaleSetExtensionHash\<close>.
\<close>

theorem extension_hash_json_invariant:
  "(s1 \<noteq> [] \<and> s2 \<noteq> [] \<and> ExpandJsonFromString h s1 = Inr obj \<and>
    ExpandJsonFromString h s2 = Inr obj \<longrightarrow>
      virtualMachineScaleSetExtensionHash h (VMap (m(''settings'' \<mapsto> VStr s1))) =
      virtualMachineScaleSetExtensionHash h (VMap (m(''settings'' \<mapsto> VStr s2)))) \<and>
   (s1 \<noteq> [] \<and> s2 \<noteq> [] \<and> ExpandJsonFromString h s1 = Inr obj \<and>
    ExpandJsonFromString h s2 = Inr obj \<longrightarrow>
      virtualMachineScaleSetExtensionHash h (VMap (m(''protected_settings'' \<mapsto> VStr s1))) =
      virtualMachineScaleSetExtensionHash h (VMap (m(''protected_settings'' \<mapsto> VStr s2))))"
proof (intro conjI impI)
  assume a: "s1 \<noteq> [] \<and> s2 \<noteq> [] \<and> ExpandJsonFromString h s1 = Inr obj \<and>
    ExpandJsonFromString h s2 = Inr obj"
  then have n: "normalizedJson h s1 = normalizedJson h s2"
    by (simp add: normalizedJson_def)
  show "virtualMachineScaleSetExtensionHash h (VMap (m(''settings'' \<mapsto> VStr s1))) =
      virtualMachineScaleSetExtensionHash h (VMap (m(''settings'' \<mapsto> VStr s2)))"
    unfolding virtualMachineScaleSetExtensionHash_def
    by (simp add: index_upd_other index_upd_same bindE_Inr n)
  show "virtualMachineScaleSetExtensionHash h (VMap (m(''protected_settings'' \<mapsto> VStr s1))) =
      virtualMachineScaleSetExtensionHash h (VMap (m(''protected_settings'' \<mapsto> VStr s2)))"
    unfolding virtualMachineScaleSetExtensionHash_def
    by (simp add: index_upd_other index_upd_same bindE_Inr n)
qed

theorem extension_hash_json_invariant_witness:
  "''{a: 1}'' \<noteq> ''{ a:1 }'' \<and>
   virtualMachineScaleSetExtensionHash sampleHelpers
     (VMap ((sampleExtensionBlock ''first'' [] [])(''settings'' \<mapsto> VStr ''{a: 1}''))) = Inr 61 \<and>
   virtualMachineScaleSetExtensionHash sampleHelpers
     (VMap ((sampleExtensionBlock ''first'' [] [])(''settings'' \<mapsto> VStr ''{a: 1}''))) =
   virtualMachineScaleSetExtensionHash sampleHelpers
     (VMap ((sampleExtensionBlock ''first'' [] [])(''settings'' \<mapsto> VStr ''{ a:1 }''))) \<and>
   virtualMachineScaleSetExtensionHash sampleHelpers
     (VMap ((sampleExtensionBlock ''first'' [] [])(''protected_settings'' \<mapsto> VStr ''{a: 1}''))) =
   virtualMachineScaleSetExtensionHash sampleHelpers
     (VMap ((sampleExtensionBlock ''first'' [] [])(''protected_settings'' \<mapsto> VStr ''{ a:1 }'')))"
proof -
  have e1: "ExpandJsonFromString sampleHelpers ''{a: 1}'' = Inr [''json'' \<mapsto> VStr ''{a:1}'']"
    by (simp add: sampleHelpers_def sampleExpandJson_def)
  have e2: "ExpandJsonFromString sampleHelpers ''{ a:1 }'' = Inr [''json'' \<mapsto> VStr ''{a:1}'']"
    by (simp add: sampleHelpers_def sampleExpandJson_def)
  have v: "virtualMachineScaleSetExtensionHash sampleHelpers
     (VMap ((sampleExtensionBlock ''first'' [] [])(''settings'' \<mapsto> VStr ''{a: 1}''))) = Inr 61"
    by (simp add: virtualMachineScaleSetExtensionHash_def sampleExtensionBlock_def sampleHelpers_def
        index_def bindE_def normalizedJson_def sampleExpandJson_def sampleFlattenJson_def)
  have n1: "''{a: 1}'' \<noteq> []" and n2: "''{ a:1 }'' \<noteq> []" and d: "''{a: 1}'' \<noteq> ''{ a:1 }''"
    by simp_all
  from extension_hash_json_invariant
         [of "''{a: 1}''" "''{ a:1 }''" sampleHelpers "[''json'' \<mapsto> VStr ''{a:1}'']"
             "sampleExtensionBlock ''first'' [] []"]
       e1 e2 n1 n2 d v
  show ?thesis by blast
qed

section \<open>Parsing and formatting resource identifiers\<close>

lemma splitSlash_nonempty: "splitSlash s \<noteq> []"
  by (induction s) (auto split: list.splits)

lemma joinSlash_Cons: "ws \<noteq> [] \<Longrightarrow> joinSlash (w # ws) = w @ ''/'' @ joinSlash ws"
  by (cases ws) auto

lemma joinSlash_splitSlash: "joinSlash (splitSlash s) = s"
proof (induction s)
  case Nil
  then show ?case by simp
next
  case (Cons c cs)
  show ?case
  proof (cases "c = CHR ''/''")
    case True
    with Cons show ?thesis by (simp add: joinSlash_Cons splitSlash_nonempty)
  next
    case False
    obtain w ws where s: "splitSlash cs = w # ws"
      using splitSlash_nonempty[of cs] by (cases "splitSlash cs") auto
    with Cons have "joinSlash (w # ws) = cs" by simp
    with s False show ?thesis by (cases ws) auto
  qed
qed

lemma splitSlash_free: "CHR ''/'' \<notin> set w \<Longrightarrow> splitSlash w = [w]"
  by (induction w) auto

lemma splitSlash_append:
  "CHR ''/'' \<notin> set w \<Longrightarrow> splitSlash (w @ CHR ''/'' # rest) = w # splitSlash rest"
  by (induction w) auto

lemma splitSlash_joinSlash:
  "cs \<noteq> [] \<Longrightarrow> \<forall>c \<in> set cs. CHR ''/'' \<notin> set c \<Longrightarrow> splitSlash (joinSlash cs) = cs"
proof (induction cs)
  case Nil
  then show ?case by simp
next
  case (Cons c cs)
  show ?case
  proof (cases cs)
    case Nil
    with Cons.prems show ?thesis by (simp add: splitSlash_free)
  next
    case (Cons d ds)
    with Cons.prems Cons.IH show ?thesis
      by (simp add: splitSlash_append)
  qed
qed

lemma splitSlash_resourcePath:
  "\<forall>c \<in> set comps. CHR ''/'' \<notin> set c \<Longrightarrow> splitSlash (resourcePath comps) = [] # comps"
  unfolding resourcePath_def by (rule splitSlash_joinSlash) auto



lemma parseSegments_render:
  "parseSegments False segs comps = Inr vals \<Longrightarrow> comps = render segs vals"
proof (induction False segs comps arbitrary: vals rule: parseSegments.induct)
  case 1
  then show ?case by simp
next
  case (2 c cs)
  then show ?case by simp
next
  case (3 s segs)
  then show ?case by simp
next
  case (4 n segs c cs)
  then show ?case by (auto split: if_splits)
next
  case (5 segs c cs)
  then show ?case by (auto split: if_splits sum.splits)
qed

lemma parseSegments_present:
  "parseSegments b segs comps = Inr vals \<Longrightarrow> list_all2 segmentPresent segs comps"
proof (induction b segs comps arbitrary: vals rule: parseSegments.induct)
  case (1 b)
  then show ?case by simp
next
  case (2 b c cs)
  then show ?case by simp
next
  case (3 b s segs)
  then show ?case by simp
next
  case (4 b n segs c cs)
  then show ?case by (auto split: if_splits)
next
  case (5 b segs c cs)
  then show ?case by (auto split: if_splits sum.splits)
qed

lemma present_not_absent:
  assumes "list_all2 segmentPresent segs comps" "s \<in> set segs"
  shows "\<not> nameAbsent comps s"
proof (cases s)
  case (Fixed n)
  from assms(2) obtain i where i: "i < length segs" "segs ! i = s"
    by (auto simp: in_set_conv_nth)
  with assms(1) have "segmentPresent s (comps ! i)" and "i < length comps"
    by (auto simp: list_all2_conv_all_nth)
  with Fixed have "foldCase n = foldCase (comps ! i)" "comps ! i \<in> set comps" by simp_all
  then have "foldCase n \<in> foldCase ` set comps" by blast
  with Fixed show ?thesis by simp
next
  case UserValue
  then show ?thesis by simp
qed

lemma parseResourceId_complete:
  assumes "parseResourceId b segs input = Inr vals"
  shows "\<not> missingSegment segs input"
proof -
  from assms(1) obtain comps where c: "splitSlash input = [] # comps"
    and p: "parseSegments b segs comps = Inr vals"
    by (auto simp: parseResourceId_def split: list.splits)
  note l = parseSegments_present[OF p]
  then have len: "length comps = length segs"
    by (simp add: list_all2_lengthD)
  have z: "\<not> list_ex (\<lambda>(s, c). \<not> segmentPresent s c) (zip segs comps)"
    using l by (auto simp: list_ex_iff list_all2_iff)
  have n: "\<not> list_ex (nameAbsent comps) segs"
    using present_not_absent[OF l] by (auto simp: list_ex_iff)
  from len z n c show ?thesis
    by (simp add: missingSegment_def)
qed

lemma parseResourceId_roundtrip:
  assumes "parseResourceId False segs input = Inr vals"
  shows "input = resourcePath (render segs vals)"
proof -
  from assms obtain comps where c: "splitSlash input = [] # comps"
    and p: "parseSegments False segs comps = Inr vals"
    by (auto simp: parseResourceId_def split: list.splits)
  from parseSegments_render[OF p] c have "splitSlash input = [] # render segs vals" by simp
  then have "joinSlash (splitSlash input) = joinSlash ([] # render segs vals)" by simp
  then show ?thesis by (simp add: joinSlash_splitSlash resourcePath_def)
qed

lemma DataFactoryID_Inr:
  "DataFactoryID input = Inr df \<Longrightarrow>
   \<exists>a b c. parseResourceId False dataFactorySegments input = Inr [a, b, c] \<and>
           df = NewDataFactoryID a b c"
  by (auto simp: DataFactoryID_def split: sum.splits list.splits)

lemma ExpressRoutePortID_Inr:
  "ExpressRoutePortID input = Inr erp \<Longrightarrow>
   \<exists>a b c. parseResourceId False expressRoutePortSegments input = Inr [a, b, c] \<and>
           erp = NewExpressRoutePortID a b c"
  by (auto simp: ExpressRoutePortID_def split: sum.splits list.splits)

lemma ExpressRoutePortIDInsensitively_Inr:
  "ExpressRoutePortIDInsensitively input = Inr erp \<Longrightarrow>
   \<exists>vals. parseResourceId True expressRoutePortSegments input = Inr vals"
  by (auto simp: ExpressRoutePortIDInsensitively_def split: sum.splits list.splits)

lemma BlobInventoryPolicyID_Inr:
  "BlobInventoryPolicyID input = Inr bip \<Longrightarrow>
   \<exists>a b c d. parseResourceId False blobInventoryPolicySegments input = Inr [a, b, c, d] \<and>
           bip = NewBlobInventoryPolicyID a b c d"
  by (auto simp: BlobInventoryPolicyID_def split: sum.splits list.splits)

lemma not_Inr_Inl: "(\<And>x. f \<noteq> Inr x) \<Longrightarrow> \<exists>e. f = Inl e"
  by (cases f) auto

text \<open>
  Claim C3. An input that misses a required path segment of the resource identifier
  (the empty string, an input without the \<open>subscriptions\<close> segment or without its
  value, without the \<open>resourceGroups\<close> segment or its value, without the resource
  type segment or the final resource name) is rejected by the parser: the result is an
  error and no parsed value. A segment is missed when the input is too short to hold
  it, when the input has another text (or, for a value, nothing) at its place, or when
  its name occurs nowhere in the input. This holds for \<open>DataFactoryID\<close>,
  \<open>BlobInventoryPolicyID\<close>, \<open>ExpressRoutePortID\<close> and
  \<open>ExpressRoutePortIDInsensitively\<close> as modelled.
\<close>

theorem missing_segment_rejected:
  "(missingSegment dataFactorySegments input \<longrightarrow> (\<exists>e. DataFactoryID input = Inl e)) \<and>
   (missingSegment blobInventoryPolicySegments input \<longrightarrow>
      (\<exists>e. BlobInventoryPolicyID input = Inl e)) \<and>
   (missingSegment expressRoutePortSegments input \<longrightarrow>
      (\<exists>e. ExpressRoutePortID input = Inl e) \<and>
      (\<exists>e. ExpressRoutePortIDInsensitively input = Inl e))"
proof (intro conjI impI)
  assume m: "missingSegment dataFactorySegments input"
  show "\<exists>e. DataFactoryID input = Inl e"
  proof (rule not_Inr_Inl)
    fix x show "DataFactoryID input \<noteq> Inr x"
      using DataFactoryID_Inr[of input x] parseResourceId_complete m
      by blast
  qed
next
  assume m: "missingSegment blobInventoryPolicySegments input"
  show "\<exists>e. BlobInventoryPolicyID input = Inl e"
  proof (rule not_Inr_Inl)
    fix x show "BlobInventoryPolicyID input \<noteq> Inr x"
      using BlobInventoryPolicyID_Inr[of input x] parseResourceId_complete m
      by blast
  qed
next
  assume m: "missingSegment expressRoutePortSegments input"
  show "\<exists>e. ExpressRoutePortID input = Inl e"
  proof (rule not_Inr_Inl)
    fix x show "ExpressRoutePortID input \<noteq> Inr x"
      using ExpressRoutePortID_Inr[of input x] parseResourceId_complete m
      by blast
  qed
next
  assume m: "missingSegment expressRoutePortSegments input"
  show "\<exists>e. ExpressRoutePortIDInsensitively input = Inl e"
  proof (rule not_Inr_Inl)
    fix x show "ExpressRoutePortIDInsensitively input \<noteq> Inr x"
      using ExpressRoutePortIDInsensitively_Inr[of input x]
        parseResourceId_complete m
      by blast
  qed
qed

lemma validValue_free: "validValue v \<Longrightarrow> CHR ''/'' \<notin> set v" "validValue v \<Longrightarrow> v \<noteq> []"
  by (simp_all add: validValue_def)

lemma DataFactoryId_ID_path:
  "DataFactoryId_ID (NewDataFactoryID a b c) = resourcePath (render dataFactorySegments [a, b, c])"
  by (simp add: DataFactoryId_ID_def NewDataFactoryID_def resourcePath_def dataFactorySegments_def)

lemma ExpressRoutePortId_ID_path:
  "ExpressRoutePortId_ID (NewExpressRoutePortID a b c) =
     resourcePath (render expressRoutePortSegments [a, b, c])"
  by (simp add: ExpressRoutePortId_ID_def NewExpressRoutePortID_def resourcePath_def
      expressRoutePortSegments_def)

lemma BlobInventoryPolicyId_ID_path:
  "BlobInventoryPolicyId_ID (NewBlobInventoryPolicyID a b c d) =
     resourcePath (render blobInventoryPolicySegments [a, b, c, d])"
  by (simp add: BlobInventoryPolicyId_ID_def NewBlobInventoryPolicyID_def resourcePath_def
      blobInventoryPolicySegments_def)

lemma DataFactoryID_canonical:
  assumes "validValue a" "validValue b" "validValue c"
  shows "DataFactoryID (DataFactoryId_ID (NewDataFactoryID a b c)) = Inr (NewDataFactoryID a b c)"
proof -
  have "splitSlash (resourcePath (render dataFactorySegments [a, b, c])) =
          [] # render dataFactorySegments [a, b, c]"
    by (rule splitSlash_resourcePath)
       (use assms in \<open>auto simp: dataFactorySegments_def validValue_def\<close>)
  with assms show ?thesis
    by (simp add: DataFactoryId_ID_path DataFactoryID_def parseResourceId_def)
       (simp add: dataFactorySegments_def validValue_def)
qed

lemma ExpressRoutePortID_canonical:
  assumes "validValue a" "validValue b" "validValue c"
  shows "ExpressRoutePortID (ExpressRoutePortId_ID (NewExpressRoutePortID a b c)) =
           Inr (NewExpressRoutePortID a b c)"
proof -
  have "splitSlash (resourcePath (render expressRoutePortSegments [a, b, c])) =
          [] # render expressRoutePortSegments [a, b, c]"
    by (rule splitSlash_resourcePath)
       (use assms in \<open>auto simp: expressRoutePortSegments_def validValue_def\<close>)
  with assms show ?thesis
    by (simp add: ExpressRoutePortId_ID_path ExpressRoutePortID_def parseResourceId_def)
       (simp add: expressRoutePortSegments_def validValue_def)
qed

text \<open>
  Claim C1. Parsing an identifier string with the case-sensitive parser and formatting
  the parsed value with \<open>ID()\<close> yields the original string: whenever the modelled
  \<open>DataFactoryID\<close>, \<open>ExpressRoutePortID\<close> or \<open>BlobInventoryPolicyID\<close> accepts an
  input, the formatter returns that input. The canonical string of every identifier
  with non-empty, slash-free values is accepted and parsed to that identifier.
\<close>

theorem parse_format_roundtrip:
  "(DataFactoryID input = Inr df \<longrightarrow> DataFactoryId_ID df = input) \<and>
   (ExpressRoutePortID input = Inr erp \<longrightarrow> ExpressRoutePortId_ID erp = input) \<and>
   (BlobInventoryPolicyID input = Inr bip \<longrightarrow> BlobInventoryPolicyId_ID bip = input) \<and>
   (validValue sub \<and> validValue rg \<and> validValue name \<longrightarrow>
      DataFactoryID (DataFactoryId_ID (NewDataFactoryID sub rg name)) =
        Inr (NewDataFactoryID sub rg name) \<and>
      ExpressRoutePortID (ExpressRoutePortId_ID (NewExpressRoutePortID sub rg name)) =
        Inr (NewExpressRoutePortID sub rg name))"
proof (intro conjI impI)
  assume "DataFactoryID input = Inr df"
  from DataFactoryID_Inr[OF this] obtain a b c where
    p: "parseResourceId False dataFactorySegments input = Inr [a, b, c]"
    and d: "df = NewDataFactoryID a b c" by blast
  from parseResourceId_roundtrip[OF p] d show "DataFactoryId_ID df = input"
    by (simp add: DataFactoryId_ID_path)
next
  assume "ExpressRoutePortID input = Inr erp"
  from ExpressRoutePortID_Inr[OF this] obtain a b c where
    p: "parseResourceId False expressRoutePortSegments input = Inr [a, b, c]"
    and d: "erp = NewExpressRoutePortID a b c" by blast
  from parseResourceId_roundtrip[OF p] d show "ExpressRoutePortId_ID erp = input"
    by (simp add: ExpressRoutePortId_ID_path)
next
  assume "BlobInventoryPolicyID input = Inr bip"
  from BlobInventoryPolicyID_Inr[OF this] obtain a b c d where
    p: "parseResourceId False blobInventoryPolicySegments input = Inr [a, b, c, d]"
    and d: "bip = NewBlobInventoryPolicyID a b c d" by blast
  from parseResourceId_roundtrip[OF p] d show "BlobInventoryPolicyId_ID bip = input"
    by (simp add: BlobInventoryPolicyId_ID_path)
next
  assume v: "validValue sub \<and> validValue rg \<and> validValue name"
  then show "DataFactoryID (DataFactoryId_ID (NewDataFactoryID sub rg name)) =
        Inr (NewDataFactoryID sub rg name)"
    by (simp add: DataFactoryID_canonical)
  from v show "ExpressRoutePortID (ExpressRoutePortId_ID (NewExpressRoutePortID sub rg name)) =
        Inr (NewExpressRoutePortID sub rg name)"
    by (simp add: ExpressRoutePortID_canonical)
qed




theorem parse_format_roundtrip_witness:
  "DataFactoryID ''/subscriptions/12345678-1234-9876-4563-123456789012/resourceGroups/resGroup1/providers/Microsoft.DataFactory/factories/facName1'' =
     Inr (NewDataFactoryID ''12345678-1234-9876-4563-123456789012'' ''resGroup1'' ''facName1'') \<and>
   DataFactoryId_ID (NewDataFactoryID ''12345678-1234-9876-4563-123456789012'' ''resGroup1'' ''facName1'') =
     ''/subscriptions/12345678-1234-9876-4563-123456789012/resourceGroups/resGroup1/providers/Microsoft.DataFactory/factories/facName1'' \<and>
   ExpressRoutePortID ''/subscriptions/12345678-1234-9876-4563-123456789012/resourceGroups/resGroup1/providers/Microsoft.Network/expressRoutePorts/port1'' =
     Inr (NewExpressRoutePortID ''12345678-1234-9876-4563-123456789012'' ''resGroup1'' ''port1'') \<and>
   ExpressRoutePortId_ID (NewExpressRoutePortID ''12345678-1234-9876-4563-123456789012'' ''resGroup1'' ''port1'') =
     ''/subscriptions/12345678-1234-9876-4563-123456789012/resourceGroups/resGroup1/providers/Microsoft.Network/expressRoutePorts/port1''"
proof -
  have v: "validValue ''12345678-1234-9876-4563-123456789012'' \<and> validValue ''resGroup1'' \<and> validValue ''facName1''"
    by (simp add: validValue_def)
  have v': "validValue ''12345678-1234-9876-4563-123456789012'' \<and> validValue ''resGroup1'' \<and> validValue ''port1''"
    by (simp add: validValue_def)
  have i1: "DataFactoryId_ID (NewDataFactoryID ''12345678-1234-9876-4563-123456789012'' ''resGroup1'' ''facName1'') =
     ''/subscriptions/12345678-1234-9876-4563-123456789012/resourceGroups/resGroup1/providers/Microsoft.DataFactory/factories/facName1''"
    by (simp add: DataFactoryId_ID_def NewDataFactoryID_def)
  have i2: "ExpressRoutePortId_ID (NewExpressRoutePortID ''12345678-1234-9876-4563-123456789012'' ''resGroup1'' ''port1'') =
     ''/subscriptions/12345678-1234-9876-4563-123456789012/resourceGroups/resGroup1/providers/Microsoft.Network/expressRoutePorts/port1''"
    by (simp add: ExpressRoutePortId_ID_def NewExpressRoutePortID_def)
  from parse_format_roundtrip
         [of "''/subscriptions/12345678-1234-9876-4563-123456789012/resourceGroups/resGroup1/providers/Microsoft.DataFactory/factories/facName1''"
             "NewDataFactoryID ''12345678-1234-9876-4563-123456789012'' ''resGroup1'' ''facName1''"
             "NewExpressRoutePortID ''12345678-1234-9876-4563-123456789012'' ''resGroup1'' ''port1''"
             "NewBlobInventoryPolicyID ''12345678-1234-9876-4563-123456789012'' ''resGroup1'' ''a'' ''b''"
             "''12345678-1234-9876-4563-123456789012''" "''resGroup1''" "''facName1''"] v
  have p1: "DataFactoryID (DataFactoryId_ID (NewDataFactoryID ''12345678-1234-9876-4563-123456789012'' ''resGroup1'' ''facName1'')) =
     Inr (NewDataFactoryID ''12345678-1234-9876-4563-123456789012'' ''resGroup1'' ''facName1'')"
    by blast
  from parse_format_roundtrip
         [of "''/subscriptions/12345678-1234-9876-4563-123456789012/resourceGroups/resGroup1/providers/Microsoft.Network/expressRoutePorts/port1''"
             "NewDataFactoryID ''12345678-1234-9876-4563-123456789012'' ''resGroup1'' ''facName1''"
             "NewExpressRoutePortID ''12345678-1234-9876-4563-123456789012'' ''resGroup1'' ''port1''"
             "NewBlobInventoryPolicyID ''12345678-1234-9876-4563-123456789012'' ''resGroup1'' ''a'' ''b''"
             "''12345678-1234-9876-4563-123456789012''" "''resGroup1''" "''port1''"] v'
  have p2: "ExpressRoutePortID (ExpressRoutePortId_ID (NewExpressRoutePortID ''12345678-1234-9876-4563-123456789012'' ''resGroup1'' ''port1'')) =
     Inr (NewExpressRoutePortID ''12345678-1234-9876-4563-123456789012'' ''resGroup1'' ''port1'')"
    by blast
  from p1 p2 i1 i2 show ?thesis by (simp only: simp_thms)
qed

theorem missing_segment_rejected_witness:
  "(\<exists>e. DataFactoryID '''' = Inl e) \<and>
   (\<exists>e. DataFactoryID ''/'' = Inl e) \<and>
   (\<exists>e. DataFactoryID ''/subscriptions/'' = Inl e) \<and>
   (\<exists>e. DataFactoryID ''/subscriptions/12345678-1234-9876-4563-123456789012/'' = Inl e) \<and>
   (\<exists>e. DataFactoryID ''/subscriptions/12345678-1234-9876-4563-123456789012/resourceGroups/'' = Inl e) \<and>
   (\<exists>e. DataFactoryID ''/subscriptions/12345678-1234-9876-4563-123456789012/resourceGroups/resGroup1/providers/Microsoft.DataFactory/'' = Inl e) \<and>
   (\<exists>e. DataFactoryID ''/subscriptions/12345678-1234-9876-4563-123456789012/resourceGroups/resGroup1/providers/Microsoft.DataFactory/factories/'' = Inl e) \<and>
   (\<exists>e. DataFactoryID ''/foo/1/resourceGroups/rg/providers/Microsoft.DataFactory/factories/f'' = Inl e) \<and>
   (\<exists>e. DataFactoryID ''/a/b/c/d/e/f/g/h'' = Inl e) \<and>
   (\<exists>e. DataFactoryID ''/subscriptions/1//rg/providers/Microsoft.DataFactory/factories/f'' = Inl e) \<and>
   (\<exists>e. DataFactoryID ''/subscriptions/1/resourceGroups/rg/providers/Microsoft.DataFactory/f/g'' = Inl e) \<and>
   (\<exists>e. DataFactoryID ''/resourceGroups/rg/subscriptions/1/providers/Microsoft.DataFactory/factories/f'' = Inl e) \<and>
   (\<exists>e. BlobInventoryPolicyID ''/subscriptions/12345678-1234-9876-4563-123456789012/resourceGroups/resGroup1/providers/Microsoft.Storage/storageAccounts/storageAccount1/'' = Inl e) \<and>
   (\<exists>e. BlobInventoryPolicyID ''/subscriptions/12345678-1234-9876-4563-123456789012/resourceGroups/resGroup1/providers/Microsoft.Storage/storageAccounts/storageAccount1/inventoryPolicies/'' = Inl e) \<and>
   (\<exists>e. ExpressRoutePortIDInsensitively ''/subscriptions/1/resourceGroups/rg/providers/Microsoft.Network/foo/port1'' = Inl e)"
proof -
  have m0: "missingSegment dataFactorySegments ''''"
    by code_simp
  from missing_segment_rejected [of "''''"] m0
  have r0: "\<exists>e. DataFactoryID '''' = Inl e" by blast
  have m1: "missingSegment dataFactorySegments ''/''"
    by code_simp
  from missing_segment_rejected [of "''/''"] m1
  have r1: "\<exists>e. DataFactoryID ''/'' = Inl e" by blast
  have m2: "missingSegment dataFactorySegments ''/subscriptions/''"
    by code_simp
  from missing_segment_rejected [of "''/subscriptions/''"] m2
  have r2: "\<exists>e. DataFactoryID ''/subscriptions/'' = Inl e" by blast
  have m3: "missingSegment dataFactorySegments ''/subscriptions/12345678-1234-9876-4563-123456789012/''"
    by code_simp
  from missing_segment_rejected [of "''/subscriptions/12345678-1234-9876-4563-123456789012/''"] m3
  have r3: "\<exists>e. DataFactoryID ''/subscriptions/12345678-1234-9876-4563-123456789012/'' = Inl e" by blast
  have m4: "missingSegment dataFactorySegments ''/subscriptions/12345678-1234-9876-4563-123456789012/resourceGroups/''"
    by code_simp
  from missing_segment_rejected [of "''/subscriptions/12345678-1234-9876-4563-123456789012/resourceGroups/''"] m4
  have r4: "\<exists>e. DataFactoryID ''/subscriptions/12345678-1234-9876-4563-123456789012/resourceGroups/'' = Inl e" by blast
  have m5: "missingSegment dataFactorySegments ''/subscriptions/12345678-1234-9876-4563-123456789012/resourceGroups/resGroup1/providers/Microsoft.DataFactory/''"
    by code_simp
  from missing_segment_rejected [of "''/subscriptions/12345678-1234-9876-4563-123456789012/resourceGroups/resGroup1/providers/Microsoft.DataFactory/''"] m5
  have r5: "\<exists>e. DataFactoryID ''/subscriptions/12345678-1234-9876-4563-123456789012/resourceGroups/resGroup1/providers/Microsoft.DataFactory/'' = Inl e" by blast
  have m6: "missingSegment dataFactorySegments ''/subscriptions/12345678-1234-9876-4563-123456789012/resourceGroups/resGroup1/providers/Microsoft.DataFactory/factories/''"
    by code_simp
  from missing_segment_rejected [of "''/subscriptions/12345678-1234-9876-4563-123456789012/resourceGroups/resGroup1/providers/Microsoft.DataFactory/factories/''"] m6
  have r6: "\<exists>e. DataFactoryID ''/subscriptions/12345678-1234-9876-4563-123456789012/resourceGroups/resGroup1/providers/Microsoft.DataFactory/factories/'' = Inl e" by blast
  have m7: "missingSegment dataFactorySegments ''/foo/1/resourceGroups/rg/providers/Microsoft.DataFactory/factories/f''"
    by code_simp
  from missing_segment_rejected [of "''/foo/1/resourceGroups/rg/providers/Microsoft.DataFactory/factories/f''"] m7
  have r7: "\<exists>e. DataFactoryID ''/foo/1/resourceGroups/rg/providers/Microsoft.DataFactory/factories/f'' = Inl e" by blast
  have m8: "missingSegment dataFactorySegments ''/a/b/c/d/e/f/g/h''"
    by code_simp
  from missing_segment_rejected [of "''/a/b/c/d/e/f/g/h''"] m8
  have r8: "\<exists>e. DataFactoryID ''/a/b/c/d/e/f/g/h'' = Inl e" by blast
  have m9: "missingSegment dataFactorySegments ''/subscriptions/1//rg/providers/Microsoft.DataFactory/factories/f''"
    by code_simp
  from missing_segment_rejected [of "''/subscriptions/1//rg/providers/Microsoft.DataFactory/factories/f''"] m9
  have r9: "\<exists>e. DataFactoryID ''/subscriptions/1//rg/providers/Microsoft.DataFactory/factories/f'' = Inl e" by blast
  have m10: "missingSegment dataFactorySegments ''/subscriptions/1/resourceGroups/rg/providers/Microsoft.DataFactory/f/g''"
    by code_simp
  from missing_segment_rejected [of "''/subscriptions/1/resourceGroups/rg/providers/Microsoft.DataFactory/f/g''"] m10
  have r10: "\<exists>e. DataFactoryID ''/subscriptions/1/resourceGroups/rg/providers/Microsoft.DataFactory/f/g'' = Inl e" by blast
  have m11: "missingSegment dataFactorySegments ''/resourceGroups/rg/subscriptions/1/providers/Microsoft.DataFactory/factories/f''"
    by code_simp
  from missing_segment_rejected [of "''/resourceGroups/rg/subscriptions/1/providers/Microsoft.DataFactory/factories/f''"] m11
  have r11: "\<exists>e. DataFactoryID ''/resourceGroups/rg/subscriptions/1/providers/Microsoft.DataFactory/factories/f'' = Inl e" by blast
  have m12: "missingSegment blobInventoryPolicySegments ''/subscriptions/12345678-1234-9876-4563-123456789012/resourceGroups/resGroup1/providers/Microsoft.Storage/storageAccounts/storageAccount1/''"
    by code_simp
  from missing_segment_rejected [of "''/subscriptions/12345678-1234-9876-4563-123456789012/resourceGroups/resGroup1/providers/Microsoft.Storage/storageAccounts/storageAccount1/''"] m12
  have r12: "\<exists>e. BlobInventoryPolicyID ''/subscriptions/12345678-1234-9876-4563-123456789012/resourceGroups/resGroup1/providers/Microsoft.Storage/storageAccounts/storageAccount1/'' = Inl e" by blast
  have m13: "missingSegment blobInventoryPolicySegments ''/subscriptions/12345678-1234-9876-4563-123456789012/resourceGroups/resGroup1/providers/Microsoft.Storage/storageAccounts/storageAccount1/inventoryPolicies/''"
    by code_simp
  from missing_segment_rejected [of "''/subscriptions/12345678-1234-9876-4563-123456789012/resourceGroups/resGroup1/providers/Microsoft.Storage/storageAccounts/storageAccount1/inventoryPolicies/''"] m13
  have r13: "\<exists>e. BlobInventoryPolicyID ''/subscriptions/12345678-1234-9876-4563-123456789012/resourceGroups/resGroup1/providers/Microsoft.Storage/storageAccounts/storageAccount1/inventoryPolicies/'' = Inl e" by blast
  have m14: "missingSegment expressRoutePortSegments ''/subscriptions/1/resourceGroups/rg/providers/Microsoft.Network/foo/port1''"
    by code_simp
  from missing_segment_rejected [of "''/subscriptions/1/resourceGroups/rg/providers/Microsoft.Network/foo/port1''"] m14
  have r14: "\<exists>e. ExpressRoutePortIDInsensitively ''/subscriptions/1/resourceGroups/rg/providers/Microsoft.Network/foo/port1'' = Inl e" by blast
  from r0 r1 r2 r3 r4 r5 r6 r7 r8 r9 r10 r11 r12 r13 r14 show ?thesis by (simp only: simp_thms)
qed


section \<open>The test tables of the parsers\<close>

text \<open>
  The modelled parsers and formatters agree with every row of the test tables in the
  sources.
\<close>

lemma DataFactoryID_test_table:
  "isl (DataFactoryID '''')"
  "isl (DataFactoryID ''/'')"
  "isl (DataFactoryID ''/subscriptions/'')"
  "isl (DataFactoryID ''/subscriptions/12345678-1234-9876-4563-123456789012/'')"
  "isl (DataFactoryID ''/subscriptions/12345678-1234-9876-4563-123456789012/resourceGroups/'')"
  "isl (DataFactoryID ''/subscriptions/12345678-1234-9876-4563-123456789012/resourceGroups/resGroup1/providers/Microsoft.DataFactory/'')"
  "isl (DataFactoryID ''/subscriptions/12345678-1234-9876-4563-123456789012/resourceGroups/resGroup1/providers/Microsoft.DataFactory/factories/'')"
  "isl (DataFactoryID ''/SUBSCRIPTIONS/12345678-1234-9876-4563-123456789012/RESOURCEGROUPS/RESGROUP1/PROVIDERS/MICROSOFT.DATAFACTORY/FACTORIES/FACNAME1'')"
  "DataFactoryID ''/subscriptions/12345678-1234-9876-4563-123456789012/resourceGroups/resGroup1/providers/Microsoft.DataFactory/factories/facName1'' =
     Inr (NewDataFactoryID ''12345678-1234-9876-4563-123456789012'' ''resGroup1'' ''facName1'')"
  by (simp_all add: DataFactoryID_def parseResourceId_def dataFactorySegments_def)

lemma ExpressRoutePortID_test_table:
  "isl (ExpressRoutePortID '''')"
  "isl (ExpressRoutePortID ''/'')"
  "isl (ExpressRoutePortID ''/subscriptions/'')"
  "isl (ExpressRoutePortID ''/subscriptions/12345678-1234-9876-4563-123456789012/'')"
  "isl (ExpressRoutePortID ''/subscriptions/12345678-1234-9876-4563-123456789012/resourceGroups/'')"
  "isl (ExpressRoutePortID ''/subscriptions/12345678-1234-9876-4563-123456789012/resourceGroups/resGroup1/providers/Microsoft.Network/'')"
  "isl (ExpressRoutePortID ''/subscriptions/12345678-1234-9876-4563-123456789012/resourceGroups/resGroup1/providers/Microsoft.Network/expressRoutePorts/'')"
  "isl (ExpressRoutePortID ''/SUBSCRIPTIONS/12345678-1234-9876-4563-123456789012/RESOURCEGROUPS/RESGROUP1/PROVIDERS/MICROSOFT.NETWORK/EXPRESSROUTEPORTS/PORT1'')"
  "ExpressRoutePortID ''/subscriptions/12345678-1234-9876-4563-123456789012/resourceGroups/resGroup1/providers/Microsoft.Network/expressRoutePorts/port1'' =
     Inr (NewExpressRoutePortID ''12345678-1234-9876-4563-123456789012'' ''resGroup1'' ''port1'')"
  by (simp_all add: ExpressRoutePortID_def parseResourceId_def expressRoutePortSegments_def)

lemma ExpressRoutePortIDInsensitively_test_table:
  "isl (ExpressRoutePortIDInsensitively '''')"
  "isl (ExpressRoutePortIDInsensitively ''/'')"
  "isl (ExpressRoutePortIDInsensitively ''/subscriptions/'')"
  "isl (ExpressRoutePortIDInsensitively ''/subscriptions/12345678-1234-9876-4563-123456789012/'')"
  "isl (ExpressRoutePortIDInsensitively ''/subscriptions/12345678-1234-9876-4563-123456789012/resourceGroups/'')"
  "isl (ExpressRoutePortIDInsensitively ''/subscriptions/12345678-1234-9876-4563-123456789012/resourceGroups/resGroup1/providers/Microsoft.Network/'')"
  "isl (ExpressRoutePortIDInsensitively ''/subscriptions/12345678-1234-9876-4563-123456789012/resourceGroups/resGroup1/providers/Microsoft.Network/expressRoutePorts/'')"
  "ExpressRoutePortIDInsensitively ''/subscriptions/12345678-1234-9876-4563-123456789012/resourceGroups/resGroup1/providers/Microsoft.Network/expressRoutePorts/port1'' =
     Inr (NewExpressRoutePortID ''12345678-1234-9876-4563-123456789012'' ''resGroup1'' ''port1'')"
  "ExpressRoutePortIDInsensitively ''/subscriptions/12345678-1234-9876-4563-123456789012/resourceGroups/resGroup1/providers/Microsoft.Network/expressrouteports/port1'' =
     Inr (NewExpressRoutePortID ''12345678-1234-9876-4563-123456789012'' ''resGroup1'' ''port1'')"
  "ExpressRoutePortIDInsensitively ''/subscriptions/12345678-1234-9876-4563-123456789012/resourceGroups/resGroup1/providers/Microsoft.Network/EXPRESSROUTEPORTS/port1'' =
     Inr (NewExpressRoutePortID ''12345678-1234-9876-4563-123456789012'' ''resGroup1'' ''port1'')"
  "ExpressRoutePortIDInsensitively ''/subscriptions/12345678-1234-9876-4563-123456789012/resourceGroups/resGroup1/providers/Microsoft.Network/ExPrEsSrOuTePoRtS/port1'' =
     Inr (NewExpressRoutePortID ''12345678-1234-9876-4563-123456789012'' ''resGroup1'' ''port1'')"
  by code_simp+

lemma BlobInventoryPolicyID_test_table:
  "isl (BlobInventoryPolicyID '''')"
  "isl (BlobInventoryPolicyID ''/'')"
  "isl (BlobInventoryPolicyID ''/subscriptions/'')"
  "isl (BlobInventoryPolicyID ''/subscriptions/12345678-1234-9876-4563-123456789012/'')"
  "isl (BlobInventoryPolicyID ''/subscriptions/12345678-1234-9876-4563-123456789012/resourceGroups/'')"
  "isl (BlobInventoryPolicyID ''/subscriptions/12345678-1234-9876-4563-123456789012/resourceGroups/resGroup1/providers/Microsoft.Storage/'')"
  "isl (BlobInventoryPolicyID ''/subscriptions/12345678-1234-9876-4563-123456789012/resourceGroups/resGroup1/providers/Microsoft.Storage/storageAccounts/'')"
  "isl (BlobInventoryPolicyID ''/subscriptions/12345678-1234-9876-4563-123456789012/resourceGroups/resGroup1/providers/Microsoft.Storage/storageAccounts/storageAccount1/'')"
  "isl (BlobInventoryPolicyID ''/subscriptions/12345678-1234-9876-4563-123456789012/resourceGroups/resGroup1/providers/Microsoft.Storage/storageAccounts/storageAccount1/inventoryPolicies/'')"
  "isl (BlobInventoryPolicyID ''/SUBSCRIPTIONS/12345678-1234-9876-4563-123456789012/RESOURCEGROUPS/RESGROUP1/PROVIDERS/MICROSOFT.STORAGE/STORAGEACCOUNTS/STORAGEACCOUNT1/INVENTORYPOLICIES/INVENTORYPOLICY1'')"
  "BlobInventoryPolicyID ''/subscriptions/12345678-1234-9876-4563-123456789012/resourceGroups/resGroup1/providers/Microsoft.Storage/storageAccounts/storageAccount1/inventoryPolicies/inventoryPolicy1'' =
     Inr (NewBlobInventoryPolicyID ''12345678-1234-9876-4563-123456789012'' ''resGroup1'' ''storageAccount1'' ''inventoryPolicy1'')"
  by (simp_all add: BlobInventoryPolicyID_def parseResourceId_def blobInventoryPolicySegments_def)

lemma formatter_tests:
  "DataFactoryId_ID (NewDataFactoryID ''12345678-1234-9876-4563-123456789012'' ''resGroup1'' ''facName1'') =
     ''/subscriptions/12345678-1234-9876-4563-123456789012/resourceGroups/resGroup1/providers/Microsoft.DataFactory/factories/facName1''"
  "ExpressRoutePortId_ID (NewExpressRoutePortID ''12345678-1234-9876-4563-123456789012'' ''resGroup1'' ''port1'') =
     ''/subscriptions/12345678-1234-9876-4563-123456789012/resourceGroups/resGroup1/providers/Microsoft.Network/expressRoutePorts/port1''"
  "BlobInventoryPolicyId_ID
     (NewBlobInventoryPolicyID ''12345678-1234-9876-4563-123456789012'' ''resGroup1'' ''storageAccount1'' ''inventoryPolicy1'') =
     ''/subscriptions/12345678-1234-9876-4563-123456789012/resourceGroups/resGroup1/providers/Microsoft.Storage/storageAccounts/storageAccount1/inventoryPolicies/inventoryPolicy1''"
  by (simp_all add: DataFactoryId_ID_def NewDataFactoryID_def ExpressRoutePortId_ID_def
      NewExpressRoutePortID_def BlobInventoryPolicyId_ID_def NewBlobInventoryPolicyID_def)

end
